theory Spec2Isabelle
  imports Main "HOL-Library.Stream" "HOL-Library.AList" "HOL-Library.Sublist"
begin

section \<open>Data model\<close>

text \<open>
  The services throw plain JavaScript errors, \<^verbatim>\<open>throw new Error(message)\<close>; the message is
  the only thing that tells one failure from another (the controllers look for the word
  \<^verbatim>\<open>Forbidden\<close> in it). An error is therefore modelled by its message. The specification's
  error kinds correspond to the messages as follows: NotFoundError is
  \<^verbatim>\<open>Task not found\<close>, ForbiddenError is a message that starts with \<^verbatim>\<open>Forbidden:\<close>,
  ConflictError is \<^verbatim>\<open>You already have an active time entry. Please stop it first.\<close> or
  \<^verbatim>\<open>Time entry is already stopped\<close>, and ValidationError is
  \<^verbatim>\<open>Start time must be before end time\<close> or the invalid date range message.

  A \<^verbatim>\<open>Date\<close> is its number of milliseconds since the epoch, an integer. Every
  \<^verbatim>\<open>new Date()\<close> evaluated while one request is served reads the same instant, the
  parameter \<open>now\<close> of the operation.

  Modelled from the spec: the class \<^verbatim>\<open>BaseEntity\<close>, from which every entity inherits
  \<open>id\<close>, \<open>createdAt\<close> and \<open>updatedAt\<close>, is not among the source files. Every record
  below has the three fields; an entity that is built without time stamps carries the
  instant of its construction, and an update refreshes \<open>updatedAt\<close>.
\<close>

datatype error = Error string

datatype taskStatus = TODO | IN_PROGRESS | DONE

datatype priority = LOW | MEDIUM | HIGH

datatype role = ADMIN | MEMBER

datatype activityType =
    TASK_CREATED | TASK_ASSIGNED | TASK_STATUS_CHANGED | TASK_PRIORITY_CHANGED
  | TASK_DUE_DATE_CHANGED | TASK_TAGS_CHANGED | TIMER_STARTED | TIMER_STOPPED | COMMENT_ADDED

record task =
  task_id :: string
  title :: string
  description :: string
  status :: taskStatus
  createdByAdminId :: string
  assigneeUserId :: "string option"
  priority :: priority
  dueDate :: "int option"
  tags :: "string list"
  task_createdAt :: int
  task_updatedAt :: int

record timeEntry =
  te_id :: string
  te_taskId :: string
  te_userId :: string
  startTime :: int
  endTime :: "int option"
  durationSeconds :: "int option"
  te_createdAt :: int
  te_updatedAt :: int

record activity =
  act_id :: string
  act_taskId :: string
  act_type :: activityType
  act_message :: string
  actorUserId :: string
  act_createdAt :: int
  act_updatedAt :: int

record comment =
  c_id :: string
  c_taskId :: string
  c_userId :: string
  c_text :: string
  c_createdAt :: int
  c_updatedAt :: int

text \<open>
  The document store: one list of documents per collection, in the order the store
  returns them, and the source of \<^verbatim>\<open>randomUUID()\<close>, a stream of identifiers. A query
  returns the documents that match in the order of the list; the properties proved below
  hold for every order of the lists.
\<close>

record world =
  tasks :: "task list"
  timeEntries :: "timeEntry list"
  activities :: "activity list"
  comments :: "comment list"
  uuids :: "string stream"

definition randomUUID :: "world \<Rightarrow> string \<times> world" where
  "randomUUID w = (shd (uuids w), w\<lparr>uuids := stl (uuids w)\<rparr>)"

text \<open>
  \<^verbatim>\<open>collection.doc(id).set(data)\<close>: the document with this id is replaced where it
  stands, a new id is added at the end.
\<close>

primrec put_doc :: "('a \<Rightarrow> string) \<Rightarrow> 'a \<Rightarrow> 'a list \<Rightarrow> 'a list" where
  "put_doc key d [] = [d]"
| "put_doc key d (x # xs) = (if key x = key d then d # xs else x # put_doc key d xs)"

section \<open>Validators (timeEntryValidators.ts)\<close>

definition ensureStartBeforeEnd :: "int \<Rightarrow> int \<Rightarrow> error + unit" where
  "ensureStartBeforeEnd start end =
     (if start \<ge> end then Inl (Error ''Start time must be before end time'') else Inr ())"

definition computeDurationSeconds :: "int \<Rightarrow> int \<Rightarrow> error + int" where
  "computeDurationSeconds start end =
     (case ensureStartBeforeEnd start end of
        Inl e \<Rightarrow> Inl e
      | Inr _ \<Rightarrow> (let milliseconds = end - start in Inr (milliseconds div 1000)))"

section \<open>Decimal rendering of numbers in messages\<close>

definition digit_char :: "nat \<Rightarrow> char" where
  "digit_char n = ''0123456789'' ! n"

fun show_nat :: "nat \<Rightarrow> string" where
  "show_nat n = (if n < 10 then [digit_char n] else show_nat (n div 10) @ [digit_char (n mod 10)])"

declare show_nat.simps [simp del]

definition show_int :: "int \<Rightarrow> string" where
  "show_int i = (if i < 0 then CHR ''-'' # show_nat (nat (- i)) else show_nat (nat i))"

section \<open>Activity service (activity.service.ts)\<close>

text \<open>
  \<^verbatim>\<open>createActivity\<close> builds the activity under a fresh random id and hands it to the
  repository, which writes it as a new document of the task's activity collection: the
  log grows by one entry.
\<close>

definition createActivity ::
  "world \<Rightarrow> int \<Rightarrow> string \<Rightarrow> activityType \<Rightarrow> string \<Rightarrow> string \<Rightarrow> activity \<times> world" where
  "createActivity w now taskId ty message actor =
     (case randomUUID w of (i, w1) \<Rightarrow>
        (let a = \<lparr>act_id = i, act_taskId = taskId, act_type = ty, act_message = message,
                   actorUserId = actor, act_createdAt = now, act_updatedAt = now\<rparr>
         in (a, w1\<lparr>activities := activities w1 @ [a]\<rparr>)))"

section \<open>Task repository (FirestoreTaskRepository)\<close>

text \<open>
  \<^verbatim>\<open>mapDocumentToTask\<close> reads a stored document back into a task; on the typed fields the
  repository itself writes, the one value it changes is an empty assignee, read as null.
\<close>

definition mapDocumentToTask :: "task \<Rightarrow> task" where
  "mapDocumentToTask raw =
     raw\<lparr>assigneeUserId :=
           (case assigneeUserId raw of
              None \<Rightarrow> None
            | Some a \<Rightarrow> if a \<noteq> [] then Some a else None)\<rparr>"

definition task_findById :: "world \<Rightarrow> string \<Rightarrow> task option" where
  "task_findById w i = map_option mapDocumentToTask (find (\<lambda>t. task_id t = i) (tasks w))"

section \<open>Time entry repository (FirestoreTimeEntryRepository)\<close>

record timeEntryPatch =
  p_startTime :: "int option"
  p_endTime :: "int option option"
  p_durationSeconds :: "int option option"

definition te_create :: "world \<Rightarrow> timeEntry \<Rightarrow> timeEntry \<times> world" where
  "te_create w e = (e, w\<lparr>timeEntries := put_doc te_id e (timeEntries w)\<rparr>)"

definition te_findById :: "world \<Rightarrow> string \<Rightarrow> timeEntry option" where
  "te_findById w i = find (\<lambda>e. te_id e = i) (timeEntries w)"

definition apply_timeEntryPatch :: "timeEntryPatch \<Rightarrow> int \<Rightarrow> timeEntry \<Rightarrow> timeEntry" where
  "apply_timeEntryPatch patch now e =
     e\<lparr>startTime := (case p_startTime patch of None \<Rightarrow> startTime e | Some s \<Rightarrow> s),
       endTime := (case p_endTime patch of None \<Rightarrow> endTime e | Some v \<Rightarrow> v),
       durationSeconds :=
         (case p_durationSeconds patch of None \<Rightarrow> durationSeconds e | Some v \<Rightarrow> v),
       te_updatedAt := now\<rparr>"

definition te_update ::
  "world \<Rightarrow> int \<Rightarrow> string \<Rightarrow> timeEntryPatch \<Rightarrow> timeEntry option \<times> world" where
  "te_update w now i patch =
     (case te_findById w i of
        None \<Rightarrow> (None, w)
      | Some e \<Rightarrow>
          (let e' = apply_timeEntryPatch patch now e
           in (Some e', w\<lparr>timeEntries := put_doc te_id e' (timeEntries w)\<rparr>)))"

definition findActiveByUser :: "world \<Rightarrow> string \<Rightarrow> timeEntry option" where
  "findActiveByUser w userId =
     find (\<lambda>e. te_userId e = userId \<and> endTime e = None) (timeEntries w)"

definition listCompletedInRange :: "world \<Rightarrow> int \<Rightarrow> int \<Rightarrow> timeEntry list" where
  "listCompletedInRange w from to =
     filter (\<lambda>entry. endTime entry \<noteq> None)
       (filter (\<lambda>e. from \<le> startTime e \<and> startTime e \<le> to) (timeEntries w))"

section \<open>Time entry service (timeEntry.service.ts)\<close>

definition startTimeEntry ::
  "world \<Rightarrow> int \<Rightarrow> string \<Rightarrow> string \<Rightarrow> (error + timeEntry) \<times> world" where
  "startTimeEntry w now userId taskId =
     (case task_findById w taskId of
        None \<Rightarrow> (Inl (Error ''Task not found''), w)
      | Some t \<Rightarrow>
          if assigneeUserId t \<noteq> Some userId
          then (Inl (Error ''Forbidden: You can only start timer for tasks assigned to you''), w)
          else
            (case findActiveByUser w userId of
               Some activeEntry \<Rightarrow>
                 (Inl (Error ''You already have an active time entry. Please stop it first.''), w)
             | None \<Rightarrow>
                 (case randomUUID w of (i, w1) \<Rightarrow>
                    (let timeEntry = \<lparr>te_id = i, te_taskId = taskId, te_userId = userId,
                                       startTime = now, endTime = None, durationSeconds = None,
                                       te_createdAt = now, te_updatedAt = now\<rparr>
                     in (case te_create w1 timeEntry of (created, w2) \<Rightarrow>
                           (case createActivity w2 now taskId TIMER_STARTED ''Started timer'' userId of
                              (a, w3) \<Rightarrow> (Inr created, w3)))))))"

definition stopTimeEntry ::
  "world \<Rightarrow> int \<Rightarrow> string \<Rightarrow> string \<Rightarrow> (error + timeEntry option) \<times> world" where
  "stopTimeEntry w now userId timeEntryId =
     (case te_findById w timeEntryId of
        None \<Rightarrow> (Inr None, w)
      | Some timeEntry \<Rightarrow>
          if te_userId timeEntry \<noteq> userId
          then (Inl (Error ''Forbidden: You can only stop your own time entries''), w)
          else if endTime timeEntry \<noteq> None
          then (Inl (Error ''Time entry is already stopped''), w)
          else
            (case computeDurationSeconds (startTime timeEntry) now of
               Inl e \<Rightarrow> (Inl e, w)
             | Inr d \<Rightarrow>
                 (case te_update w now timeEntryId
                         \<lparr>p_startTime = None, p_endTime = Some (Some now),
                          p_durationSeconds = Some (Some d)\<rparr> of
                    (None, w1) \<Rightarrow> (Inr None, w1)
                  | (Some updated, w1) \<Rightarrow>
                      (case createActivity w1 now (te_taskId timeEntry) TIMER_STOPPED
                              (''Stopped timer ('' @ show_int (d div 60) @ ''m ''
                                 @ show_int (d mod 60) @ ''s)'') userId of
                         (a, w2) \<Rightarrow> (Inr (Some updated), w2)))))"

definition getActiveTimeEntry :: "world \<Rightarrow> string \<Rightarrow> timeEntry option" where
  "getActiveTimeEntry w userId = findActiveByUser w userId"

section \<open>Sorting an array (Array.prototype.sort with a comparator)\<close>

text \<open>
  \<^verbatim>\<open>xs.sort(cmp)\<close> is a stable sort: for a consistent comparator its result is the stable
  insertion of the elements from the right, whatever algorithm the engine uses.
\<close>

primrec insert_by :: "('a \<Rightarrow> 'a \<Rightarrow> int) \<Rightarrow> 'a \<Rightarrow> 'a list \<Rightarrow> 'a list" where
  "insert_by cmp x [] = [x]"
| "insert_by cmp x (y # ys) = (if cmp x y \<le> 0 then x # y # ys else y # insert_by cmp x ys)"

definition array_sort :: "('a \<Rightarrow> 'a \<Rightarrow> int) \<Rightarrow> 'a list \<Rightarrow> 'a list" where
  "array_sort cmp xs = foldr (insert_by cmp) xs []"

section \<open>Strings\<close>

text \<open>
  Characters are code units below 256. \<open>toLowerCase\<close> folds the ASCII capitals,
  \<open>str_includes\<close> (the method \<^verbatim>\<open>includes\<close>) is the contiguous-substring test, and
  \<open>trim\<close> strips the white space of the range (tab, line feed, vertical tab, form feed,
  carriage return, space, no-break space) from both ends.
\<close>

definition toLowerCase_char :: "char \<Rightarrow> char" where
  "toLowerCase_char c =
     (let n = (of_char c :: nat) in if 65 \<le> n \<and> n \<le> 90 then char_of (n + 32) else c)"

definition toLowerCase :: "string \<Rightarrow> string" where
  "toLowerCase s = map toLowerCase_char s"

definition str_includes :: "string \<Rightarrow> string \<Rightarrow> bool" where
  "str_includes s q = sublist q s"

definition isWhiteSpace :: "char \<Rightarrow> bool" where
  "isWhiteSpace c = ((of_char c :: nat) \<in> {9, 10, 11, 12, 13, 32, 160})"

definition trim :: "string \<Rightarrow> string" where
  "trim s = rev (dropWhile isWhiteSpace (rev (dropWhile isWhiteSpace s)))"

text \<open>
  Modelled from the spec: the declarations of the enums \<^verbatim>\<open>TaskStatus\<close> and
  \<^verbatim>\<open>Priority\<close> are not among the source files; their string values are the names
  the specification and the schema document give.
\<close>

fun taskStatus_str :: "taskStatus \<Rightarrow> string" where
  "taskStatus_str TODO = ''TODO''"
| "taskStatus_str IN_PROGRESS = ''IN_PROGRESS''"
| "taskStatus_str DONE = ''DONE''"

fun priority_str :: "priority \<Rightarrow> string" where
  "priority_str LOW = ''LOW''"
| "priority_str MEDIUM = ''MEDIUM''"
| "priority_str HIGH = ''HIGH''"

section \<open>Task repository, continued\<close>

text \<open>
  A patch is a partial task: a field that is \<open>None\<close> is absent (\<^verbatim>\<open>undefined\<close>); for the
  nullable fields \<open>Some None\<close> is an explicit null.
\<close>

record taskPatch =
  tp_title :: "string option"
  tp_description :: "string option"
  tp_status :: "taskStatus option"
  tp_assigneeUserId :: "string option option"
  tp_priority :: "priority option"
  tp_dueDate :: "int option option"
  tp_tags :: "string list option"

definition apply_taskPatch :: "taskPatch \<Rightarrow> int \<Rightarrow> task \<Rightarrow> task" where
  "apply_taskPatch patch now raw =
     raw\<lparr>title := (case tp_title patch of None \<Rightarrow> title raw | Some v \<Rightarrow> v),
         description := (case tp_description patch of None \<Rightarrow> description raw | Some v \<Rightarrow> v),
         status := (case tp_status patch of None \<Rightarrow> status raw | Some v \<Rightarrow> v),
         assigneeUserId :=
           (case tp_assigneeUserId patch of None \<Rightarrow> assigneeUserId raw | Some v \<Rightarrow> v),
         priority := (case tp_priority patch of None \<Rightarrow> priority raw | Some v \<Rightarrow> v),
         dueDate := (case tp_dueDate patch of None \<Rightarrow> dueDate raw | Some v \<Rightarrow> v),
         tags := (case tp_tags patch of None \<Rightarrow> tags raw | Some v \<Rightarrow> v),
         task_updatedAt := now\<rparr>"

definition task_update ::
  "world \<Rightarrow> int \<Rightarrow> string \<Rightarrow> taskPatch \<Rightarrow> task option \<times> world" where
  "task_update w now i patch =
     (case find (\<lambda>t. task_id t = i) (tasks w) of
        None \<Rightarrow> (None, w)
      | Some raw \<Rightarrow>
          (let raw' = apply_taskPatch patch now raw
           in (Some (mapDocumentToTask raw'), w\<lparr>tasks := put_doc task_id raw' (tasks w)\<rparr>)))"

definition listAll :: "world \<Rightarrow> task list" where
  "listAll w = map mapDocumentToTask (tasks w)"

definition listByAssignee :: "world \<Rightarrow> string \<Rightarrow> task list" where
  "listByAssignee w userId =
     map mapDocumentToTask (filter (\<lambda>t. assigneeUserId t = Some userId) (tasks w))"

datatype sortBy = SortDueDate | SortCreatedAt

datatype sortOrder = Asc | Desc

record taskFilters =
  f_status :: "taskStatus option"
  f_priority :: "priority option"
  f_assigneeUserId :: "string option"
  f_tag :: "string option"
  f_searchQuery :: "string option"
  f_sortBy :: "sortBy option"
  f_sortOrder :: "sortOrder option"

text \<open>
  \<^verbatim>\<open>if (filters.x)\<close> on a string field: the field is present and not the empty string.
  The enum values are non-empty strings, so for them present means truthy.
\<close>

definition truthy :: "string option \<Rightarrow> bool" where
  "truthy v = (case v of None \<Rightarrow> False | Some s \<Rightarrow> s \<noteq> [])"

definition sort_value :: "sortBy \<Rightarrow> task \<Rightarrow> int" where
  "sort_value key t =
     (case key of
        SortDueDate \<Rightarrow> (case dueDate t of None \<Rightarrow> 0 | Some d \<Rightarrow> d)
      | SortCreatedAt \<Rightarrow> task_createdAt t)"

definition searchAndFilter :: "world \<Rightarrow> taskFilters \<Rightarrow> task list" where
  "searchAndFilter w filters =
     (let q0 = tasks w;
          q1 = (case f_status filters of
                  None \<Rightarrow> q0 | Some s \<Rightarrow> filter (\<lambda>t. status t = s) q0);
          q2 = (case f_priority filters of
                  None \<Rightarrow> q1 | Some p \<Rightarrow> filter (\<lambda>t. priority t = p) q1);
          q3 = (if truthy (f_assigneeUserId filters)
                then filter (\<lambda>t. assigneeUserId t = f_assigneeUserId filters) q2 else q2);
          q4 = (if truthy (f_tag filters)
                then filter (\<lambda>t. case f_tag filters of
                                     None \<Rightarrow> False | Some tg \<Rightarrow> tg \<in> set (tags t)) q3
                else q3);
          docs = map mapDocumentToTask q4;
          found = (if truthy (f_searchQuery filters)
                   then (case f_searchQuery filters of
                           None \<Rightarrow> docs
                         | Some q \<Rightarrow>
                             (let searchLower = toLowerCase q
                              in filter (\<lambda>t. str_includes (toLowerCase (title t)) searchLower
                                           \<or> str_includes (toLowerCase (description t)) searchLower)
                                   docs))
                   else docs)
      in (case f_sortBy filters of
            None \<Rightarrow> found
          | Some key \<Rightarrow>
              array_sort
                (\<lambda>a b. if f_sortOrder filters = Some Desc
                       then sort_value key b - sort_value key a
                       else sort_value key a - sort_value key b)
                found))"

section \<open>Task service (task.service.ts)\<close>

text \<open>
  \<^verbatim>\<open>toISOString().split('T')[0]\<close>, the calendar date of an instant, is a function of the
  JavaScript runtime; the operations that print a date take it as the parameter
  \<open>isoDate\<close>.

  \<^verbatim>\<open>JSON.stringify\<close> of two arrays of strings gives the same text exactly when the arrays
  are equal, element by element and in order; the comparison of the two renderings is the
  comparison of the tag lists.
\<close>

definition updateTaskAsAdmin ::
  "(int \<Rightarrow> string) \<Rightarrow> world \<Rightarrow> int \<Rightarrow> string \<Rightarrow> taskPatch \<Rightarrow> string \<Rightarrow> task option \<times> world" where
  "updateTaskAsAdmin isoDate w now taskId patch actor =
     (case task_findById w taskId of
        None \<Rightarrow> (None, w)
      | Some existing \<Rightarrow>
          (case task_update w now taskId patch of
             (None, w1) \<Rightarrow> (None, w1)
           | (Some updated, w1) \<Rightarrow>
               (let w2 = (case tp_status patch of
                            None \<Rightarrow> w1
                          | Some s \<Rightarrow>
                              if s \<noteq> status existing
                              then snd (createActivity w1 now taskId TASK_STATUS_CHANGED
                                     (''Status changed to '' @ taskStatus_str s) actor)
                              else w1);
                    w3 = (case tp_assigneeUserId patch of
                            None \<Rightarrow> w2
                          | Some a \<Rightarrow>
                              if a \<noteq> assigneeUserId existing
                              then snd (createActivity w2 now taskId TASK_ASSIGNED
                                     (case a of
                                        None \<Rightarrow> ''Unassigned''
                                      | Some x \<Rightarrow>
                                          if x \<noteq> [] then ''Assigned to user '' @ x
                                          else ''Unassigned'') actor)
                              else w2);
                    w4 = (case tp_priority patch of
                            None \<Rightarrow> w3
                          | Some p \<Rightarrow>
                              if p \<noteq> priority existing
                              then snd (createActivity w3 now taskId TASK_PRIORITY_CHANGED
                                     (''Priority changed to '' @ priority_str p) actor)
                              else w3);
                    w5 = (case tp_dueDate patch of
                            None \<Rightarrow> w4
                          | Some d \<Rightarrow>
                              (let dueDateStr = (case d of
                                                   Some ms \<Rightarrow> isoDate ms
                                                 | None \<Rightarrow> ''None'')
                               in snd (createActivity w4 now taskId TASK_DUE_DATE_CHANGED
                                     (''Due date set to '' @ dueDateStr) actor)));
                    w6 = (case tp_tags patch of
                            None \<Rightarrow> w5
                          | Some tg \<Rightarrow>
                              if tg \<noteq> tags existing
                              then snd (createActivity w5 now taskId TASK_TAGS_CHANGED
                                     ''Tags updated'' actor)
                              else w5)
                in (Some updated, w6))))"

text \<open>
  \<^verbatim>\<open>Object.keys(filters).length > 0\<close>: the caller's filter object has at least one key.
  A key that holds \<^verbatim>\<open>undefined\<close> is not told apart from an absent one.
\<close>

definition has_keys :: "taskFilters \<Rightarrow> bool" where
  "has_keys f =
     (f_status f \<noteq> None \<or> f_priority f \<noteq> None \<or> f_assigneeUserId f \<noteq> None \<or>
      f_tag f \<noteq> None \<or> f_searchQuery f \<noteq> None \<or> f_sortBy f \<noteq> None \<or>
      f_sortOrder f \<noteq> None)"

definition no_filters :: taskFilters where
  "no_filters = \<lparr>f_status = None, f_priority = None, f_assigneeUserId = None, f_tag = None,
                  f_searchQuery = None, f_sortBy = None, f_sortOrder = None\<rparr>"

definition listTasksForAdmin :: "world \<Rightarrow> taskFilters option \<Rightarrow> task list" where
  "listTasksForAdmin w filters =
     (case filters of
        None \<Rightarrow> listAll w
      | Some f \<Rightarrow> if has_keys f then searchAndFilter w f else listAll w)"

definition listTasksForMember :: "world \<Rightarrow> string \<Rightarrow> taskFilters option \<Rightarrow> task list" where
  "listTasksForMember w memberId filters =
     (let memberFilters =
            (case filters of None \<Rightarrow> no_filters | Some f \<Rightarrow> f)\<lparr>f_assigneeUserId := Some memberId\<rparr>
      in (case filters of
            None \<Rightarrow> listByAssignee w memberId
          | Some f \<Rightarrow>
              if has_keys f then searchAndFilter w memberFilters
              else listByAssignee w memberId))"

definition status_only :: "taskStatus \<Rightarrow> taskPatch" where
  "status_only s = \<lparr>tp_title = None, tp_description = None, tp_status = Some s,
                     tp_assigneeUserId = None, tp_priority = None, tp_dueDate = None,
                     tp_tags = None\<rparr>"

definition completeTask ::
  "world \<Rightarrow> int \<Rightarrow> string \<Rightarrow> string \<Rightarrow> (error + task \<times> timeEntry option) \<times> world" where
  "completeTask w now taskId memberId =
     (case task_findById w taskId of
        None \<Rightarrow> (Inl (Error ''Task not found''), w)
      | Some t \<Rightarrow>
          if assigneeUserId t \<noteq> Some memberId
          then (Inl (Error ''Forbidden: You can only complete tasks assigned to you''), w)
          else
            (let activeEntry = getActiveTimeEntry w memberId;
                 stopped = (case activeEntry of
                              None \<Rightarrow> (Inr None, w)
                            | Some a \<Rightarrow>
                                if te_taskId a = taskId
                                then stopTimeEntry w now memberId (te_id a)
                                else (Inr None, w))
             in (case stopped of
                   (Inl e, w1) \<Rightarrow> (Inl e, w1)
                 | (Inr stoppedTimeEntry, w1) \<Rightarrow>
                     (case task_update w1 now taskId (status_only DONE) of
                        (None, w2) \<Rightarrow> (Inl (Error ''Failed to update task''), w2)
                      | (Some updated, w2) \<Rightarrow>
                          (case createActivity w2 now taskId TASK_STATUS_CHANGED
                                  ''Task completed'' memberId of
                             (a, w3) \<Rightarrow> (Inr (updated, stoppedTimeEntry), w3))))))"

section \<open>Comment service and controller\<close>

text \<open>
  \<open>createComment\<close> builds the comment under a fresh random id; the repository writes it as
  a new document of the task's comment collection. Of the controller, \<open>bodyText\<close> is the
  field \<^verbatim>\<open>text\<close> of the request body: \<open>None\<close> when it is missing or not a string.
\<close>

definition createComment ::
  "world \<Rightarrow> int \<Rightarrow> string \<Rightarrow> string \<Rightarrow> role \<Rightarrow> string \<Rightarrow> (error + comment) \<times> world" where
  "createComment w now taskId userId userRole content =
     (case task_findById w taskId of
        None \<Rightarrow> (Inl (Error ''Task not found''), w)
      | Some t \<Rightarrow>
          if userRole \<noteq> ADMIN \<and> assigneeUserId t \<noteq> Some userId
          then (Inl (Error ''Forbidden: You can only comment on tasks assigned to you''), w)
          else
            (case randomUUID w of (i, w1) \<Rightarrow>
               (let c = \<lparr>c_id = i, c_taskId = taskId, c_userId = userId, c_text = content,
                          c_createdAt = now, c_updatedAt = now\<rparr>;
                    w2 = w1\<lparr>comments := comments w1 @ [c]\<rparr>
                in (case createActivity w2 now taskId COMMENT_ADDED ''Added a comment'' userId of
                      (a, w3) \<Rightarrow> (Inr c, w3)))))"

datatype responseBody = ErrorBody string | CommentBody comment

datatype response = Response nat responseBody

definition commentController_create ::
  "world \<Rightarrow> int \<Rightarrow> (string \<times> role) option \<Rightarrow> string \<Rightarrow> string option \<Rightarrow> response \<times> world" where
  "commentController_create w now user taskId bodyText =
     (case user of
        None \<Rightarrow> (Response 401 (ErrorBody ''Unauthorized''), w)
      | Some (uid, userRole) \<Rightarrow>
          (case bodyText of
             None \<Rightarrow> (Response 400 (ErrorBody ''Comment text is required''), w)
           | Some content \<Rightarrow>
               if content = [] \<or> length (trim content) = 0
               then (Response 400 (ErrorBody ''Comment text is required''), w)
               else if length content > 2000
               then (Response 400 (ErrorBody ''Comment text must be 2000 characters or less''), w)
               else
                 (case createComment w now taskId uid userRole (trim content) of
                    (Inl (Error m), w1) \<Rightarrow> (Response 400 (ErrorBody m), w1)
                  | (Inr c, w1) \<Rightarrow> (Response 201 (CommentBody c), w1))))"

section \<open>Reports service (reports.service.ts)\<close>

record timeTotalByUser =
  userId :: string
  totalDurationSeconds :: int

record timeReportResult =
  r_from :: string
  r_to :: string
  totals :: "timeTotalByUser list"

text \<open>\<^verbatim>\<open>userTotals.get(k) || 0\<close>: zero for a missing key (and for a stored zero).\<close>

definition or_zero :: "int option \<Rightarrow> int" where
  "or_zero v = (case v of None \<Rightarrow> 0 | Some c \<Rightarrow> if c \<noteq> 0 then c else 0)"

text \<open>
  The aggregation loop over the fetched entries. \<open>userTotals\<close> is a JavaScript
  \<^verbatim>\<open>Map\<close>: \<^verbatim>\<open>set\<close> keeps the position of a key it already holds and adds a new
  key at the end, which is \<open>AList.update\<close>.
\<close>

primrec aggregate :: "timeEntry list \<Rightarrow> (string \<times> int) list \<Rightarrow> (string \<times> int) list" where
  "aggregate [] userTotals = userTotals"
| "aggregate (entry # rest) userTotals =
     aggregate rest
       (case durationSeconds entry of
          None \<Rightarrow> userTotals
        | Some d \<Rightarrow>
            if d > 0
            then (let currentTotal = or_zero (map_of userTotals (te_userId entry))
                  in AList.update (te_userId entry) (currentTotal + d) userTotals)
            else userTotals)"

definition getTimeTotalsByUser ::
  "(string \<Rightarrow> string \<Rightarrow> int) \<Rightarrow> (int \<Rightarrow> string) \<Rightarrow> world \<Rightarrow> int \<Rightarrow> int
     \<Rightarrow> error + timeReportResult" where
  "getTimeTotalsByUser localeCompare isoDate w from to =
     (if from > to
      then Inl (Error ''Invalid date range: \"from\" date must be before or equal to \"to\" date'')
      else
        (let entries = listCompletedInRange w from to;
             userTotals = aggregate entries [];
             rows = array_sort (\<lambda>a b. localeCompare (userId a) (userId b))
                      (map (\<lambda>(u, s). \<lparr>userId = u, totalDurationSeconds = s\<rparr>) userTotals)
         in Inr \<lparr>r_from = isoDate from, r_to = isoDate to, totals = rows\<rparr>))"

section \<open>Predicates used to state the properties\<close>

text \<open>
  Document ids are unique within a collection, and the service keeps at most one running
  entry per user (the single-timer invariant of the data model).
\<close>

definition unique_entry_ids :: "world \<Rightarrow> bool" where
  "unique_entry_ids w = distinct (map te_id (timeEntries w))"

definition at_most_one_active :: "world \<Rightarrow> string \<Rightarrow> bool" where
  "at_most_one_active w u =
     (length (filter (\<lambda>e. te_userId e = u \<and> endTime e = None) (timeEntries w)) \<le> 1)"

text \<open>
  An entry contributes to the report of user \<open>u\<close> over \<open>[from, to]\<close> when it is the
  user's, is stopped, starts within the range (bounds included) and has a positive duration.
  \<open>expected_total\<close> is the sum of the durations of the contributing entries.
\<close>

definition contributes :: "int \<Rightarrow> int \<Rightarrow> string \<Rightarrow> timeEntry \<Rightarrow> bool" where
  "contributes from to u e =
     (te_userId e = u \<and> endTime e \<noteq> None \<and> from \<le> startTime e \<and> startTime e \<le> to \<and>
      (case durationSeconds e of None \<Rightarrow> False | Some d \<Rightarrow> d > 0))"

definition duration_of :: "timeEntry \<Rightarrow> int" where
  "duration_of e = (case durationSeconds e of None \<Rightarrow> 0 | Some d \<Rightarrow> d)"

definition expected_total :: "world \<Rightarrow> int \<Rightarrow> int \<Rightarrow> string \<Rightarrow> int" where
  "expected_total w from to u =
     sum_list (map duration_of (filter (contributes from to u) (timeEntries w)))"

definition consistent_comparator :: "('a \<Rightarrow> 'a \<Rightarrow> int) \<Rightarrow> bool" where
  "consistent_comparator cmp =
     ((\<forall>a b. cmp a b > 0 \<longrightarrow> cmp b a \<le> 0) \<and>
      (\<forall>a b c. cmp a b \<le> 0 \<and> cmp b c \<le> 0 \<longrightarrow> cmp a c \<le> 0))"

definition positive_for :: "string \<Rightarrow> timeEntry \<Rightarrow> bool" where
  "positive_for u e =
     (te_userId e = u \<and> (case durationSeconds e of None \<Rightarrow> False | Some d \<Rightarrow> d > 0))"

definition row_pairs :: "timeTotalByUser list \<Rightarrow> (string \<times> int) list" where
  "row_pairs rows = map (\<lambda>row. (userId row, totalDurationSeconds row)) rows"

section \<open>Example stores\<close>

text \<open>
  Four tasks (\<open>t1\<close> and \<open>t4\<close> assigned to \<open>u1\<close>, \<open>t2\<close> assigned to \<open>u2\<close>, \<open>t3\<close>
  unassigned), a stopped time entry and a running one of user \<open>u1\<close>. In \<open>ex_idle\<close>
  nobody has a running timer; in \<open>ex_running\<close> user \<open>u1\<close> has one on task \<open>t1\<close>,
  started at 1000 s.
\<close>

definition ex_task1 :: task where
  "ex_task1 = \<lparr>task_id = ''t1'', title = ''Write report'', description = ''Quarterly numbers'',
       status = TODO, createdByAdminId = ''admin'', assigneeUserId = Some ''u1'',
       priority = MEDIUM, dueDate = None, tags = [], task_createdAt = 0, task_updatedAt = 0\<rparr>"

definition ex_task2 :: task where
  "ex_task2 = \<lparr>task_id = ''t2'', title = ''Review'', description = ''Code review'',
       status = IN_PROGRESS, createdByAdminId = ''admin'', assigneeUserId = Some ''u2'',
       priority = HIGH, dueDate = Some 5000, tags = [''dev'', ''urgent''],
       task_createdAt = 10, task_updatedAt = 10\<rparr>"

definition ex_task3 :: task where
  "ex_task3 = \<lparr>task_id = ''t3'', title = ''Backlog'', description = ''Unassigned work'',
       status = TODO, createdByAdminId = ''admin'', assigneeUserId = None,
       priority = LOW, dueDate = None, tags = [''dev''], task_createdAt = 20, task_updatedAt = 20\<rparr>"

definition ex_task4 :: task where
  "ex_task4 = \<lparr>task_id = ''t4'', title = ''Deploy'', description = ''Ship the release'',
       status = TODO, createdByAdminId = ''admin'', assigneeUserId = Some ''u1'',
       priority = HIGH, dueDate = Some 9000, tags = [''ops''], task_createdAt = 30,
       task_updatedAt = 30\<rparr>"

definition ex_entry1 :: timeEntry where
  "ex_entry1 = \<lparr>te_id = ''e1'', te_taskId = ''t1'', te_userId = ''u1'', startTime = 1000000,
       endTime = None, durationSeconds = None, te_createdAt = 1000000, te_updatedAt = 1000000\<rparr>"

definition ex_entry2 :: timeEntry where
  "ex_entry2 = \<lparr>te_id = ''e2'', te_taskId = ''t1'', te_userId = ''u1'', startTime = 400000,
       endTime = Some 460000, durationSeconds = Some 60, te_createdAt = 400000,
       te_updatedAt = 460000\<rparr>"

definition ex_idle :: world where
  "ex_idle = \<lparr>tasks = [ex_task1, ex_task2, ex_task3, ex_task4], timeEntries = [ex_entry2],
       activities = [], comments = [], uuids = sconst ''id''\<rparr>"

definition ex_running :: world where
  "ex_running = \<lparr>tasks = [ex_task1, ex_task2, ex_task3, ex_task4], timeEntries = [ex_entry2, ex_entry1],
       activities = [], comments = [], uuids = sconst ''id''\<rparr>"

text \<open>
  A patch that sets the due date of \<open>t2\<close> to the date it already has, a patch with a
  null due date (what the controller passes for a request that does not mention the due
  date), a filter on the status alone, and a store of time entries for the report: in the range \<open>[100, 200]\<close>
  user \<open>u2\<close> has two stopped entries (50 s and 30 s) and user \<open>u1\<close> one (70 s); the other
  entries are running, have a zero duration or start outside the range.
\<close>

definition ex_same_due :: taskPatch where
  "ex_same_due = \<lparr>tp_title = None, tp_description = None, tp_status = None,
       tp_assigneeUserId = None, tp_priority = None, tp_dueDate = Some (Some 5000),
       tp_tags = None\<rparr>"

definition ex_null_due :: taskPatch where
  "ex_null_due = \<lparr>tp_title = None, tp_description = None, tp_status = None,
       tp_assigneeUserId = None, tp_priority = None, tp_dueDate = Some None,
       tp_tags = None\<rparr>"

definition ex_todo_filter :: taskFilters where
  "ex_todo_filter = \<lparr>f_status = Some TODO, f_priority = None, f_assigneeUserId = None,
       f_tag = None, f_searchQuery = None, f_sortBy = None, f_sortOrder = None\<rparr>"

definition ex_report_entries :: "timeEntry list" where
  "ex_report_entries =
     [\<lparr>te_id = ''r1'', te_taskId = ''t2'', te_userId = ''u2'', startTime = 100,
        endTime = Some 200, durationSeconds = Some 50, te_createdAt = 100, te_updatedAt = 200\<rparr>,
      \<lparr>te_id = ''r2'', te_taskId = ''t1'', te_userId = ''u1'', startTime = 150,
        endTime = Some 300, durationSeconds = Some 70, te_createdAt = 150, te_updatedAt = 300\<rparr>,
      \<lparr>te_id = ''r3'', te_taskId = ''t2'', te_userId = ''u2'', startTime = 200,
        endTime = Some 400, durationSeconds = Some 30, te_createdAt = 200, te_updatedAt = 400\<rparr>,
      \<lparr>te_id = ''r4'', te_taskId = ''t1'', te_userId = ''u1'', startTime = 190,
        endTime = None, durationSeconds = None, te_createdAt = 190, te_updatedAt = 190\<rparr>,
      \<lparr>te_id = ''r5'', te_taskId = ''t3'', te_userId = ''u3'', startTime = 195,
        endTime = Some 196, durationSeconds = Some 0, te_createdAt = 195, te_updatedAt = 196\<rparr>,
      \<lparr>te_id = ''r6'', te_taskId = ''t1'', te_userId = ''u1'', startTime = 900,
        endTime = Some 950, durationSeconds = Some 40, te_createdAt = 900, te_updatedAt = 950\<rparr>]"

definition ex_report :: world where
  "ex_report = \<lparr>tasks = [ex_task1, ex_task2, ex_task3, ex_task4],
       timeEntries = ex_report_entries, activities = [], comments = [],
       uuids = sconst ''id''\<rparr>"

text \<open>
  A comparator, the lexicographic order of the code units, and a constant calendar date.
\<close>

fun ex_compare :: "string \<Rightarrow> string \<Rightarrow> int" where
  "ex_compare [] [] = 0"
| "ex_compare [] (y # ys) = - 1"
| "ex_compare (x # xs) [] = 1"
| "ex_compare (x # xs) (y # ys) =
     (if (of_char x :: nat) < of_char y then - 1
      else if (of_char y :: nat) < of_char x then 1
      else ex_compare xs ys)"

definition ex_isoDate :: "int \<Rightarrow> string" where
  "ex_isoDate ms = ''1970-01-01''"

section \<open>Auxiliary facts about the store\<close>

lemmas ex_defs = ex_task1_def ex_task2_def ex_task3_def ex_task4_def ex_entry1_def ex_entry2_def
  ex_idle_def ex_running_def

lemmas te_service_defs =
  startTimeEntry_def stopTimeEntry_def task_findById_def findActiveByUser_def randomUUID_def
  te_create_def createActivity_def Let_def mapDocumentToTask_def te_findById_def
  computeDurationSeconds_def ensureStartBeforeEnd_def te_update_def apply_timeEntryPatch_def

lemma find_put_doc_same:
  "find (\<lambda>x. key x = i) xs = Some e \<Longrightarrow> key e' = i \<Longrightarrow>
   find (\<lambda>x. key x = i) (put_doc key e' xs) = Some e'"
  by (induction xs) (auto split: if_splits)

lemma find_Some_key: "find (\<lambda>x. key x = i) xs = Some e \<Longrightarrow> key e = i"
  by (induction xs) (auto split: if_splits)

lemma find_put_doc_Some: "P d \<Longrightarrow> find P (put_doc key d xs) \<noteq> None"
  by (induction xs) auto

lemma startTimeEntry_tasks: "tasks (snd (startTimeEntry w now u t)) = tasks w"
  by (simp add: te_service_defs split: option.splits prod.splits)

lemma startTimeEntry_active:
  assumes "fst (startTimeEntry w now u t) = Inr e"
  shows "findActiveByUser (snd (startTimeEntry w now u t)) u \<noteq> None"
proof -
  let ?e = "\<lparr>te_id = shd (uuids w), te_taskId = t, te_userId = u, startTime = now,
              endTime = None, durationSeconds = None, te_createdAt = now, te_updatedAt = now\<rparr>"
  from assms have "timeEntries (snd (startTimeEntry w now u t)) = put_doc te_id ?e (timeEntries w)"
    by (auto simp add: te_service_defs split: option.splits if_splits)
  moreover have "find (\<lambda>e. te_userId e = u \<and> endTime e = None) (put_doc te_id ?e (timeEntries w)) \<noteq> None"
    by (rule find_put_doc_Some) simp
  ultimately show ?thesis
    by (simp add: findActiveByUser_def)
qed

lemma stop_step:
  assumes f: "te_findById w i = Some e" and own: "te_userId e = u" and act: "endTime e = None"
    and lt: "startTime e < now"
  shows "fst (stopTimeEntry w now u i) =
           Inr (Some (e\<lparr>endTime := Some now,
                         durationSeconds := Some ((now - startTime e) div 1000),
                         te_updatedAt := now\<rparr>))"
    and "timeEntries (snd (stopTimeEntry w now u i)) =
           put_doc te_id (e\<lparr>endTime := Some now,
                         durationSeconds := Some ((now - startTime e) div 1000),
                         te_updatedAt := now\<rparr>) (timeEntries w)"
    and "activities (snd (stopTimeEntry w now u i)) =
           activities w @
             [\<lparr>act_id = shd (uuids w), act_taskId = te_taskId e, act_type = TIMER_STOPPED,
               act_message = ''Stopped timer ('' @ show_int ((now - startTime e) div 1000 div 60)
                   @ ''m '' @ show_int ((now - startTime e) div 1000 mod 60) @ ''s)'',
               actorUserId = u, act_createdAt = now, act_updatedAt = now\<rparr>]"
    and "tasks (snd (stopTimeEntry w now u i)) = tasks w"
    and "comments (snd (stopTimeEntry w now u i)) = comments w"
  using assms by (simp_all add: stopTimeEntry_def computeDurationSeconds_def
      ensureStartBeforeEnd_def te_update_def apply_timeEntryPatch_def createActivity_def
      randomUUID_def Let_def)

lemma stop_guard:
  assumes f: "te_findById w i = Some e" and own: "te_userId e = u" and act: "endTime e = None"
    and ge: "startTime e \<ge> now"
  shows "stopTimeEntry w now u i = (Inl (Error ''Start time must be before end time''), w)"
  using assms by (simp add: stopTimeEntry_def computeDurationSeconds_def ensureStartBeforeEnd_def)

section \<open>Starting a timer\<close>

text \<open>
  Claim C1. \<open>startTimeEntry\<close> checks, in this order: the task exists (else
  \<^verbatim>\<open>Task not found\<close>), the task is assigned to the caller (else the Forbidden error, also
  for an unassigned task), the caller has no running entry (else the conflict error). When
  all three pass, it creates, stores and returns an entry whose \<open>endTime\<close> and
  \<open>durationSeconds\<close> are null. After a successful start, a second start by the same user
  never succeeds: it fails with the error of the first check it does not pass, which is the
  conflict error when the second task exists and is assigned to the user, but
  \<^verbatim>\<open>Task not found\<close> or the Forbidden error when it is not.
\<close>

theorem startTimeEntry_checks_in_order:
  "(task_findById w t = None \<longrightarrow>
      startTimeEntry w now u t = (Inl (Error ''Task not found''), w)) \<and>
   (task_findById w t = Some tk \<and> assigneeUserId tk \<noteq> Some u \<longrightarrow>
      startTimeEntry w now u t =
        (Inl (Error ''Forbidden: You can only start timer for tasks assigned to you''), w)) \<and>
   (task_findById w t = Some tk \<and> assigneeUserId tk = Some u \<and> findActiveByUser w u = Some a \<longrightarrow>
      startTimeEntry w now u t =
        (Inl (Error ''You already have an active time entry. Please stop it first.''), w)) \<and>
   (task_findById w t = Some tk \<and> assigneeUserId tk = Some u \<and> findActiveByUser w u = None \<longrightarrow>
      fst (startTimeEntry w now u t) =
        Inr \<lparr>te_id = shd (uuids w), te_taskId = t, te_userId = u, startTime = now,
              endTime = None, durationSeconds = None, te_createdAt = now, te_updatedAt = now\<rparr> \<and>
      te_findById (snd (startTimeEntry w now u t)) (shd (uuids w)) =
        Some \<lparr>te_id = shd (uuids w), te_taskId = t, te_userId = u, startTime = now,
              endTime = None, durationSeconds = None, te_createdAt = now, te_updatedAt = now\<rparr>) \<and>
   (fst (startTimeEntry w now u t) = Inr e \<longrightarrow>
      fst (startTimeEntry (snd (startTimeEntry w now u t)) now' u t') =
        (case task_findById w t' of
           None \<Rightarrow> Inl (Error ''Task not found'')
         | Some tk' \<Rightarrow>
             if assigneeUserId tk' \<noteq> Some u
             then Inl (Error ''Forbidden: You can only start timer for tasks assigned to you'')
             else Inl (Error ''You already have an active time entry. Please stop it first.'')))"
proof (intro conjI impI)
  assume "task_findById w t = None"
  then show "startTimeEntry w now u t = (Inl (Error ''Task not found''), w)"
    by (simp add: startTimeEntry_def)
next
  assume "task_findById w t = Some tk \<and> assigneeUserId tk \<noteq> Some u"
  then show "startTimeEntry w now u t =
        (Inl (Error ''Forbidden: You can only start timer for tasks assigned to you''), w)"
    by (simp add: startTimeEntry_def)
next
  assume "task_findById w t = Some tk \<and> assigneeUserId tk = Some u \<and> findActiveByUser w u = Some a"
  then show "startTimeEntry w now u t =
        (Inl (Error ''You already have an active time entry. Please stop it first.''), w)"
    by (simp add: startTimeEntry_def)
next
  assume h: "task_findById w t = Some tk \<and> assigneeUserId tk = Some u \<and> findActiveByUser w u = None"
  then show "fst (startTimeEntry w now u t) =
        Inr \<lparr>te_id = shd (uuids w), te_taskId = t, te_userId = u, startTime = now,
              endTime = None, durationSeconds = None, te_createdAt = now, te_updatedAt = now\<rparr>"
    by (simp add: startTimeEntry_def randomUUID_def te_create_def createActivity_def Let_def)
  have "find (\<lambda>x. te_id x = te_id d) (put_doc te_id d xs) = Some d" for d :: timeEntry and xs
    by (induction xs) auto
  from this [of "\<lparr>te_id = shd (uuids w), te_taskId = t, te_userId = u, startTime = now,
              endTime = None, durationSeconds = None, te_createdAt = now, te_updatedAt = now\<rparr>" "timeEntries w"] h
  show "te_findById (snd (startTimeEntry w now u t)) (shd (uuids w)) =
        Some \<lparr>te_id = shd (uuids w), te_taskId = t, te_userId = u, startTime = now,
              endTime = None, durationSeconds = None, te_createdAt = now, te_updatedAt = now\<rparr>"
    by (simp add: startTimeEntry_def randomUUID_def te_create_def createActivity_def Let_def te_findById_def)
next
  assume ok: "fst (startTimeEntry w now u t) = Inr e"
  let ?w1 = "snd (startTimeEntry w now u t)"
  have tasks_same: "task_findById ?w1 t' = task_findById w t'"
    by (simp add: task_findById_def startTimeEntry_tasks)
  from startTimeEntry_active [OF ok] obtain a where a: "findActiveByUser ?w1 u = Some a"
    by auto
  show "fst (startTimeEntry ?w1 now' u t') =
        (case task_findById w t' of
           None \<Rightarrow> Inl (Error ''Task not found'')
         | Some tk' \<Rightarrow>
             if assigneeUserId tk' \<noteq> Some u
             then Inl (Error ''Forbidden: You can only start timer for tasks assigned to you'')
             else Inl (Error ''You already have an active time entry. Please stop it first.''))"
    unfolding startTimeEntry_def [of ?w1] tasks_same a
    by (simp split: option.splits)
qed

theorem startTimeEntry_checks_in_order_witness:
  "task_findById ex_idle ''t9'' = None \<and>
   startTimeEntry ex_idle 1000000 ''u1'' ''t9'' = (Inl (Error ''Task not found''), ex_idle) \<and>
   task_findById ex_idle ''t2'' = Some ex_task2 \<and> assigneeUserId ex_task2 \<noteq> Some ''u1'' \<and>
   startTimeEntry ex_idle 1000000 ''u1'' ''t2'' =
     (Inl (Error ''Forbidden: You can only start timer for tasks assigned to you''), ex_idle) \<and>
   task_findById ex_running ''t1'' = Some ex_task1 \<and> assigneeUserId ex_task1 = Some ''u1'' \<and>
   findActiveByUser ex_running ''u1'' = Some ex_entry1 \<and>
   startTimeEntry ex_running 1000000 ''u1'' ''t1'' =
     (Inl (Error ''You already have an active time entry. Please stop it first.''), ex_running) \<and>
   task_findById ex_idle ''t1'' = Some ex_task1 \<and> findActiveByUser ex_idle ''u1'' = None \<and>
   fst (startTimeEntry ex_idle 1000000 ''u1'' ''t1'') =
     Inr \<lparr>te_id = ''id'', te_taskId = ''t1'', te_userId = ''u1'', startTime = 1000000,
           endTime = None, durationSeconds = None, te_createdAt = 1000000,
           te_updatedAt = 1000000\<rparr> \<and>
   te_findById (snd (startTimeEntry ex_idle 1000000 ''u1'' ''t1'')) ''id'' =
     Some \<lparr>te_id = ''id'', te_taskId = ''t1'', te_userId = ''u1'', startTime = 1000000,
           endTime = None, durationSeconds = None, te_createdAt = 1000000,
           te_updatedAt = 1000000\<rparr> \<and>
   fst (startTimeEntry (snd (startTimeEntry ex_idle 1000000 ''u1'' ''t1'')) 1005000 ''u1'' ''t1'') =
     Inl (Error ''You already have an active time entry. Please stop it first.'')"
  using startTimeEntry_checks_in_order [where w = ex_idle and t = "''t9''" and now = 1000000
      and u = "''u1''"]
    startTimeEntry_checks_in_order [where w = ex_idle and t = "''t2''" and now = 1000000
      and u = "''u1''" and tk = ex_task2]
    startTimeEntry_checks_in_order [where w = ex_running and t = "''t1''" and now = 1000000
      and u = "''u1''" and tk = ex_task1 and a = ex_entry1]
    startTimeEntry_checks_in_order [where w = ex_idle and t = "''t1''" and now = 1000000
      and u = "''u1''" and tk = ex_task1 and now' = 1005000 and t' = "''t1''"
      and e = "\<lparr>te_id = ''id'', te_taskId = ''t1'', te_userId = ''u1'', startTime = 1000000,
           endTime = None, durationSeconds = None, te_createdAt = 1000000,
           te_updatedAt = 1000000\<rparr>"]
  by (simp add: ex_defs task_findById_def mapDocumentToTask_def findActiveByUser_def)

text \<open>
  The claim as written says that the second start always fails with the conflict error.
  In \<open>ex_idle\<close>, user \<open>u1\<close> starts a timer on \<open>t1\<close> and then asks for one on the task
  \<open>t9\<close>, which does not exist: the second call fails with \<^verbatim>\<open>Task not found\<close>.
\<close>

theorem second_start_not_always_conflict:
  "fst (startTimeEntry ex_idle 1000000 ''u1'' ''t1'') =
     Inr \<lparr>te_id = ''id'', te_taskId = ''t1'', te_userId = ''u1'', startTime = 1000000,
           endTime = None, durationSeconds = None, te_createdAt = 1000000,
           te_updatedAt = 1000000\<rparr> \<and>
   fst (startTimeEntry (snd (startTimeEntry ex_idle 1000000 ''u1'' ''t1'')) 1005000 ''u1'' ''t9'') =
     Inl (Error ''Task not found'') \<and>
   fst (startTimeEntry (snd (startTimeEntry ex_idle 1000000 ''u1'' ''t1'')) 1005000 ''u1'' ''t9'') \<noteq>
     Inl (Error ''You already have an active time entry. Please stop it first.'')"
  by (simp add: ex_defs te_service_defs)

section \<open>Stopping a timer\<close>

text \<open>
  Claim C2. \<open>stopTimeEntry\<close> returns null, without an error, when no entry has the given
  id; it fails with the Forbidden error when the entry belongs to another user; it fails
  with \<^verbatim>\<open>Time entry is already stopped\<close> when the entry is the caller's and has an end
  time. These are the only exits before the stop itself: for a running entry of the caller the
  outcome is the one of the stop step, the duration computation followed by the update.
\<close>

theorem stopTimeEntry_early_exits:
  "(te_findById w i = None \<longrightarrow> stopTimeEntry w now u i = (Inr None, w)) \<and>
   (te_findById w i = Some e \<and> te_userId e \<noteq> u \<longrightarrow>
      stopTimeEntry w now u i =
        (Inl (Error ''Forbidden: You can only stop your own time entries''), w)) \<and>
   (te_findById w i = Some e \<and> te_userId e = u \<and> endTime e \<noteq> None \<longrightarrow>
      stopTimeEntry w now u i = (Inl (Error ''Time entry is already stopped''), w)) \<and>
   (te_findById w i = Some e \<and> te_userId e = u \<and> endTime e = None \<longrightarrow>
      fst (stopTimeEntry w now u i) =
        (case computeDurationSeconds (startTime e) now of
           Inl err \<Rightarrow> Inl err
         | Inr d \<Rightarrow>
             Inr (Some (e\<lparr>endTime := Some now, durationSeconds := Some d,
                           te_updatedAt := now\<rparr>))))"
  by (auto simp add: stopTimeEntry_def te_update_def apply_timeEntryPatch_def createActivity_def
      randomUUID_def Let_def split: sum.splits)

theorem stopTimeEntry_early_exits_witness:
  "te_findById ex_running ''e9'' = None \<and>
   stopTimeEntry ex_running 1090000 ''u1'' ''e9'' = (Inr None, ex_running) \<and>
   te_findById ex_running ''e1'' = Some ex_entry1 \<and> te_userId ex_entry1 \<noteq> ''u2'' \<and>
   stopTimeEntry ex_running 1090000 ''u2'' ''e1'' =
     (Inl (Error ''Forbidden: You can only stop your own time entries''), ex_running) \<and>
   te_findById ex_running ''e2'' = Some ex_entry2 \<and> te_userId ex_entry2 = ''u1'' \<and>
   endTime ex_entry2 \<noteq> None \<and>
   stopTimeEntry ex_running 1090000 ''u1'' ''e2'' =
     (Inl (Error ''Time entry is already stopped''), ex_running) \<and>
   te_userId ex_entry1 = ''u1'' \<and> endTime ex_entry1 = None \<and>
   fst (stopTimeEntry ex_running 1090000 ''u1'' ''e1'') =
     Inr (Some (ex_entry1\<lparr>endTime := Some 1090000, durationSeconds := Some 90,
                           te_updatedAt := 1090000\<rparr>))"
  using stopTimeEntry_early_exits [where w = ex_running and i = "''e9''" and now = 1090000 and u = "''u1''"]
    stopTimeEntry_early_exits [where w = ex_running and i = "''e1''" and e = ex_entry1 and u = "''u2''" and now = 1090000]
    stopTimeEntry_early_exits [where w = ex_running and i = "''e2''" and e = ex_entry2 and u = "''u1''" and now = 1090000]
    stopTimeEntry_early_exits [where w = ex_running and i = "''e1''" and e = ex_entry1 and u = "''u1''" and now = 1090000]
  by (simp add: ex_defs te_findById_def computeDurationSeconds_def ensureStartBeforeEnd_def)

text \<open>
  Claim C3. A running entry started at \<open>T0\<close> and stopped by its owner at server time
  \<open>T1\<close>: when \<open>T0 < T1\<close> the stopped entry has \<open>durationSeconds = floor ((T1 - T0) / 1000)\<close>,
  a non-negative integer, and \<open>endTime = T1\<close>, both written by the same update; when
  \<open>T0 \<ge> T1\<close> the call fails with \<^verbatim>\<open>Start time must be before end time\<close> and the store
  is as before. The floor is integer division, pinned down by the two inequalities.
\<close>

theorem stop_sets_duration_and_endTime:
  "(te_findById w i = Some e \<and> te_userId e = u \<and> endTime e = None \<and> startTime e < now \<longrightarrow>
      fst (stopTimeEntry w now u i) =
        Inr (Some (e\<lparr>endTime := Some now,
                      durationSeconds := Some ((now - startTime e) div 1000),
                      te_updatedAt := now\<rparr>)) \<and>
      te_findById (snd (stopTimeEntry w now u i)) i =
        Some (e\<lparr>endTime := Some now,
                 durationSeconds := Some ((now - startTime e) div 1000),
                 te_updatedAt := now\<rparr>) \<and>
      0 \<le> (now - startTime e) div 1000 \<and>
      1000 * ((now - startTime e) div 1000) \<le> now - startTime e \<and>
      now - startTime e < 1000 * ((now - startTime e) div 1000) + 1000) \<and>
   (te_findById w i = Some e \<and> te_userId e = u \<and> endTime e = None \<and> startTime e \<ge> now \<longrightarrow>
      stopTimeEntry w now u i = (Inl (Error ''Start time must be before end time''), w))"
proof (intro conjI impI)
  assume h: "te_findById w i = Some e \<and> te_userId e = u \<and> endTime e = None \<and> startTime e < now"
  let ?e' = "e\<lparr>endTime := Some now, durationSeconds := Some ((now - startTime e) div 1000),
                te_updatedAt := now\<rparr>"
  from h show "fst (stopTimeEntry w now u i) = Inr (Some ?e')"
    by (simp add: stop_step(1))
  from h have "find (\<lambda>x. te_id x = i) (timeEntries w) = Some e"
    by (simp add: te_findById_def)
  then have "find (\<lambda>x. te_id x = i) (put_doc te_id ?e' (timeEntries w)) = Some ?e'"
    using find_put_doc_same [of te_id i "timeEntries w" e ?e']
      find_Some_key [of te_id i "timeEntries w" e]
    by simp
  with h show "te_findById (snd (stopTimeEntry w now u i)) i = Some ?e'"
    by (simp add: te_findById_def [of "snd (stopTimeEntry w now u i)"] stop_step(2))
  from h have "0 \<le> now - startTime e"
    by simp
  then show "0 \<le> (now - startTime e) div 1000"
    by (simp add: pos_imp_zdiv_nonneg_iff)
  show "1000 * ((now - startTime e) div 1000) \<le> now - startTime e"
    by simp
  have "now - startTime e = 1000 * ((now - startTime e) div 1000) + (now - startTime e) mod 1000"
    by simp
  moreover have "(now - startTime e) mod 1000 < 1000"
    by simp
  ultimately show "now - startTime e < 1000 * ((now - startTime e) div 1000) + 1000"
    by linarith
next
  assume "te_findById w i = Some e \<and> te_userId e = u \<and> endTime e = None \<and> startTime e \<ge> now"
  then show "stopTimeEntry w now u i = (Inl (Error ''Start time must be before end time''), w)"
    by (simp add: stop_guard)
qed

theorem stop_sets_duration_and_endTime_witness:
  "te_findById ex_running ''e1'' = Some ex_entry1 \<and> te_userId ex_entry1 = ''u1'' \<and>
   endTime ex_entry1 = None \<and> startTime ex_entry1 < 1090000 \<and>
   fst (stopTimeEntry ex_running 1090000 ''u1'' ''e1'') =
     Inr (Some (ex_entry1\<lparr>endTime := Some 1090000, durationSeconds := Some 90,
                           te_updatedAt := 1090000\<rparr>)) \<and>
   te_findById (snd (stopTimeEntry ex_running 1090000 ''u1'' ''e1'')) ''e1'' =
     Some (ex_entry1\<lparr>endTime := Some 1090000, durationSeconds := Some 90,
                           te_updatedAt := 1090000\<rparr>) \<and>
   startTime ex_entry1 \<ge> 1000000 \<and>
   stopTimeEntry ex_running 1000000 ''u1'' ''e1'' =
     (Inl (Error ''Start time must be before end time''), ex_running)"
  using stop_sets_duration_and_endTime [where w = ex_running and i = "''e1''" and e = ex_entry1 and u = "''u1''" and now = 1090000]
    stop_sets_duration_and_endTime [where w = ex_running and i = "''e1''" and e = ex_entry1 and u = "''u1''" and now = 1000000]
  by (simp add: ex_defs te_findById_def)

text \<open>
  Claim C9. Whenever \<open>stopTimeEntry\<close> throws, the whole store is exactly as it was: no
  entry is updated and no activity is created. A change of the time entries or of the
  activity log happens only on the success path, where exactly one \<open>TIMER_STOPPED\<close>
  activity is appended.
\<close>

theorem stopTimeEntry_failure_leaves_store:
  "(fst (stopTimeEntry w now u i) = Inl err \<longrightarrow> snd (stopTimeEntry w now u i) = w) \<and>
   (timeEntries (snd (stopTimeEntry w now u i)) \<noteq> timeEntries w \<or>
    activities (snd (stopTimeEntry w now u i)) \<noteq> activities w \<longrightarrow>
      (\<exists>e'. fst (stopTimeEntry w now u i) = Inr (Some e'))) \<and>
   (fst (stopTimeEntry w now u i) = Inr (Some e') \<longrightarrow>
      (\<exists>a. activities (snd (stopTimeEntry w now u i)) = activities w @ [a] \<and>
           act_type a = TIMER_STOPPED \<and> act_taskId a = te_taskId e' \<and> actorUserId a = u) \<and>
      endTime e' = Some now \<and> te_findById (snd (stopTimeEntry w now u i)) i = Some e')"
proof (intro conjI impI)
  assume "fst (stopTimeEntry w now u i) = Inl err"
  then show "snd (stopTimeEntry w now u i) = w"
    by (auto simp add: stopTimeEntry_def te_update_def createActivity_def randomUUID_def Let_def
        split: option.splits if_splits sum.splits)
next
  assume "timeEntries (snd (stopTimeEntry w now u i)) \<noteq> timeEntries w \<or>
    activities (snd (stopTimeEntry w now u i)) \<noteq> activities w"
  then show "\<exists>e'. fst (stopTimeEntry w now u i) = Inr (Some e')"
    by (auto simp add: stopTimeEntry_def te_update_def createActivity_def randomUUID_def Let_def
        split: option.splits if_splits sum.splits)
next
  assume ok: "fst (stopTimeEntry w now u i) = Inr (Some e')"
  then obtain e where e: "te_findById w i = Some e" "te_userId e = u" "endTime e = None"
      "startTime e < now"
    by (auto simp add: stopTimeEntry_def computeDurationSeconds_def ensureStartBeforeEnd_def
        split: option.splits if_splits sum.splits)
  let ?e' = "e\<lparr>endTime := Some now, durationSeconds := Some ((now - startTime e) div 1000),
                te_updatedAt := now\<rparr>"
  from ok stop_step(1) [OF e] have e': "e' = ?e'"
    by simp
  from stop_step(3) [OF e] e'
  show "\<exists>a. activities (snd (stopTimeEntry w now u i)) = activities w @ [a] \<and>
           act_type a = TIMER_STOPPED \<and> act_taskId a = te_taskId e' \<and> actorUserId a = u"
    by simp
  from e' show "endTime e' = Some now"
    by simp
  from e(1) have "find (\<lambda>x. te_id x = i) (timeEntries w) = Some e"
    by (simp add: te_findById_def)
  then have "find (\<lambda>x. te_id x = i) (put_doc te_id ?e' (timeEntries w)) = Some ?e'"
    using find_put_doc_same [of te_id i "timeEntries w" e ?e']
      find_Some_key [of te_id i "timeEntries w" e]
    by simp
  with e' show "te_findById (snd (stopTimeEntry w now u i)) i = Some e'"
    by (simp add: te_findById_def [of "snd (stopTimeEntry w now u i)"] stop_step(2) [OF e])
qed

theorem stopTimeEntry_failure_leaves_store_witness:
  "fst (stopTimeEntry ex_running 1090000 ''u2'' ''e1'') =
     Inl (Error ''Forbidden: You can only stop your own time entries'') \<and>
   snd (stopTimeEntry ex_running 1090000 ''u2'' ''e1'') = ex_running \<and>
   fst (stopTimeEntry ex_running 1090000 ''u1'' ''e2'') =
     Inl (Error ''Time entry is already stopped'') \<and>
   snd (stopTimeEntry ex_running 1090000 ''u1'' ''e2'') = ex_running \<and>
   fst (stopTimeEntry ex_running 1000000 ''u1'' ''e1'') =
     Inl (Error ''Start time must be before end time'') \<and>
   snd (stopTimeEntry ex_running 1000000 ''u1'' ''e1'') = ex_running \<and>
   timeEntries (snd (stopTimeEntry ex_running 1090000 ''u1'' ''e1'')) \<noteq> timeEntries ex_running \<and>
   fst (stopTimeEntry ex_running 1090000 ''u1'' ''e1'') =
     Inr (Some (ex_entry1\<lparr>endTime := Some 1090000, durationSeconds := Some 90,
                           te_updatedAt := 1090000\<rparr>)) \<and>
   activities (snd (stopTimeEntry ex_running 1090000 ''u1'' ''e1'')) =
     activities ex_running @
       [\<lparr>act_id = ''id'', act_taskId = ''t1'', act_type = TIMER_STOPPED,
         act_message = ''Stopped timer (1m 30s)'', actorUserId = ''u1'',
         act_createdAt = 1090000, act_updatedAt = 1090000\<rparr>]"
  using stopTimeEntry_failure_leaves_store [where w = ex_running and now = 1090000
      and u = "''u2''" and i = "''e1''"
      and err = "Error ''Forbidden: You can only stop your own time entries''"]
    stopTimeEntry_failure_leaves_store [where w = ex_running and now = 1090000
      and u = "''u1''" and i = "''e2''" and err = "Error ''Time entry is already stopped''"]
    stopTimeEntry_failure_leaves_store [where w = ex_running and now = 1000000
      and u = "''u1''" and i = "''e1''" and err = "Error ''Start time must be before end time''"]
    stopTimeEntry_failure_leaves_store [where w = ex_running and now = 1090000
      and u = "''u1''" and i = "''e1''"
      and e' = "ex_entry1\<lparr>endTime := Some 1090000, durationSeconds := Some 90,
                           te_updatedAt := 1090000\<rparr>"]
  by (simp add: ex_defs te_service_defs show_int_def show_nat.simps digit_char_def)

section \<open>Completing a task\<close>

lemma find_distinct_key:
  "distinct (map key xs) \<Longrightarrow> a \<in> set xs \<Longrightarrow> find (\<lambda>x. key x = key a) xs = Some a"
  by (induction xs) (auto simp add: rev_image_eqI)

lemma find_single:
  "length (filter P xs) \<le> 1 \<Longrightarrow> a \<in> set xs \<Longrightarrow> P a \<Longrightarrow> find P xs = Some a"
proof (induction xs)
  case Nil
  then show ?case by simp
next
  case (Cons x xs)
  show ?case
  proof (cases "P x")
    case True
    with Cons.prems have "filter P xs = []"
      by simp
    with Cons.prems True show ?thesis
      by (auto simp add: filter_empty_conv)
  next
    case False
    with Cons show ?thesis
      by auto
  qed
qed

lemma mapDocumentToTask_update:
  "mapDocumentToTask (apply_taskPatch (status_only s) now raw) =
     (mapDocumentToTask raw)\<lparr>status := s, task_updatedAt := now\<rparr>"
  by (simp add: mapDocumentToTask_def apply_taskPatch_def status_only_def)

lemma task_update_status:
  assumes "task_findById w t = Some tk"
  shows "task_update w now t (status_only s) =
     (Some (tk\<lparr>status := s, task_updatedAt := now\<rparr>),
      w\<lparr>tasks := put_doc task_id (apply_taskPatch (status_only s) now
             (the (find (\<lambda>x. task_id x = t) (tasks w)))) (tasks w)\<rparr>)"
  using assms
  by (auto simp add: task_update_def task_findById_def Let_def mapDocumentToTask_update)

lemma task_findById_after_update:
  assumes "task_findById w t = Some tk"
  shows "task_findById (snd (task_update w now t (status_only s))) t =
           Some (tk\<lparr>status := s, task_updatedAt := now\<rparr>)"
proof -
  from assms obtain raw where raw: "find (\<lambda>x. task_id x = t) (tasks w) = Some raw"
      and tk: "tk = mapDocumentToTask raw"
    by (auto simp add: task_findById_def)
  let ?raw' = "apply_taskPatch (status_only s) now raw"
  have id: "task_id ?raw' = t"
    using find_Some_key [of task_id t "tasks w" raw] raw
    by (simp add: apply_taskPatch_def)
  have "find (\<lambda>x. task_id x = t) (put_doc task_id ?raw' (tasks w)) = Some ?raw'"
    using find_put_doc_same [of task_id t "tasks w" raw ?raw'] raw id by simp
  then show ?thesis
    using raw tk
    by (simp add: task_update_def task_findById_def Let_def mapDocumentToTask_update)
qed


lemma find_Some_P: "find P xs = Some a \<Longrightarrow> P a \<and> a \<in> set xs"
  by (induction xs) (auto split: if_splits)

lemma task_update_frame:
  "timeEntries (snd (task_update w now t p)) = timeEntries w"
  "activities (snd (task_update w now t p)) = activities w"
  "comments (snd (task_update w now t p)) = comments w"
  "uuids (snd (task_update w now t p)) = uuids w"
  by (simp_all add: task_update_def Let_def split: option.splits)

lemma createActivity_frame:
  "timeEntries (snd (createActivity w now t ty msg actor)) = timeEntries w"
  "tasks (snd (createActivity w now t ty msg actor)) = tasks w"
  "comments (snd (createActivity w now t ty msg actor)) = comments w"
  "uuids (snd (createActivity w now t ty msg actor)) = stl (uuids w)"
  "activities (snd (createActivity w now t ty msg actor)) =
     activities w @ [\<lparr>act_id = shd (uuids w), act_taskId = t, act_type = ty, act_message = msg,
                       actorUserId = actor, act_createdAt = now, act_updatedAt = now\<rparr>]"
  by (simp_all add: createActivity_def randomUUID_def Let_def)

lemma task_findById_cong: "tasks w' = tasks w \<Longrightarrow> task_findById w' t = task_findById w t"
  by (simp add: task_findById_def)

lemma te_findById_cong: "timeEntries w' = timeEntries w \<Longrightarrow> te_findById w' i = te_findById w i"
  by (simp add: te_findById_def)

lemma completeTask_after_stop:
  assumes tk: "task_findById w t = Some tk" and own: "assigneeUserId tk = Some m"
    and st: "(case getActiveTimeEntry w m of
                None \<Rightarrow> (Inr None, w)
              | Some a \<Rightarrow> if te_taskId a = t then stopTimeEntry w now m (te_id a)
                          else (Inr None, w)) = (Inr stopped, w1)"
    and same: "tasks w1 = tasks w"
  shows "completeTask w now t m =
           (Inr (tk\<lparr>status := DONE, task_updatedAt := now\<rparr>, stopped),
            snd (createActivity (snd (task_update w1 now t (status_only DONE))) now t
                   TASK_STATUS_CHANGED ''Task completed'' m))"
proof -
  have tk1: "task_findById w1 t = Some tk"
    using tk task_findById_cong [OF same] by simp
  show ?thesis
    using tk own st task_update_status [OF tk1, of now DONE]
    by (simp add: completeTask_def Let_def split: prod.splits)
qed

lemma completeTask_stop_fails:
  assumes tk: "task_findById w t = Some tk" and own: "assigneeUserId tk = Some m"
    and st: "(case getActiveTimeEntry w m of
                None \<Rightarrow> (Inr None, w)
              | Some a \<Rightarrow> if te_taskId a = t then stopTimeEntry w now m (te_id a)
                          else (Inr None, w)) = (Inl e, w1)"
  shows "completeTask w now t m = (Inl e, w1)"
  using assms by (simp add: completeTask_def Let_def)

lemma stop_step_uuids:
  assumes f: "te_findById w i = Some e" and own: "te_userId e = u" and act: "endTime e = None"
    and lt: "startTime e < now"
  shows "uuids (snd (stopTimeEntry w now u i)) = stl (uuids w)"
  using assms by (simp add: stopTimeEntry_def computeDurationSeconds_def
      ensureStartBeforeEnd_def te_update_def apply_timeEntryPatch_def createActivity_def
      randomUUID_def Let_def)

lemma completeTask_stops_own_timer:
  assumes tk: "task_findById w t = Some tk" and own: "assigneeUserId tk = Some m"
    and ids: "unique_entry_ids w" and one: "at_most_one_active w m"
    and a: "a \<in> set (timeEntries w)" "te_userId a = m" "endTime a = None" "te_taskId a = t"
    and lt: "startTime a < now"
  shows "fst (completeTask w now t m) =
           Inr (tk\<lparr>status := DONE, task_updatedAt := now\<rparr>,
                Some (a\<lparr>endTime := Some now,
                        durationSeconds := Some ((now - startTime a) div 1000),
                        te_updatedAt := now\<rparr>))"
    and "te_findById (snd (completeTask w now t m)) (te_id a) =
           Some (a\<lparr>endTime := Some now,
                   durationSeconds := Some ((now - startTime a) div 1000),
                   te_updatedAt := now\<rparr>)"
    and "task_findById (snd (completeTask w now t m)) t =
           Some (tk\<lparr>status := DONE, task_updatedAt := now\<rparr>)"
    and "activities (snd (completeTask w now t m)) =
           activities w @
             [\<lparr>act_id = shd (uuids w), act_taskId = t, act_type = TIMER_STOPPED,
               act_message = ''Stopped timer ('' @ show_int ((now - startTime a) div 1000 div 60)
                   @ ''m '' @ show_int ((now - startTime a) div 1000 mod 60) @ ''s)'',
               actorUserId = m, act_createdAt = now, act_updatedAt = now\<rparr>,
              \<lparr>act_id = shd (stl (uuids w)), act_taskId = t, act_type = TASK_STATUS_CHANGED,
               act_message = ''Task completed'', actorUserId = m, act_createdAt = now,
               act_updatedAt = now\<rparr>]"
proof -
  let ?a' = "a\<lparr>endTime := Some now, durationSeconds := Some ((now - startTime a) div 1000),
                te_updatedAt := now\<rparr>"
  let ?w1 = "snd (stopTimeEntry w now m (te_id a))"
  have act: "getActiveTimeEntry w m = Some a"
    using find_single [of "\<lambda>e. te_userId e = m \<and> endTime e = None" "timeEntries w" a] one a
    by (simp add: getActiveTimeEntry_def findActiveByUser_def at_most_one_active_def)
  have f: "te_findById w (te_id a) = Some a"
    using find_distinct_key [of te_id "timeEntries w" a] ids a(1)
    by (simp add: te_findById_def unique_entry_ids_def)
  note s = stop_step [OF f a(2) a(3) lt] stop_step_uuids [OF f a(2) a(3) lt]
  have st: "(case getActiveTimeEntry w m of
                None \<Rightarrow> (Inr None, w)
              | Some a \<Rightarrow> if te_taskId a = t then stopTimeEntry w now m (te_id a)
                          else (Inr None, w)) = (Inr (Some ?a'), ?w1)"
    using act a(4) s(1) by (simp add: prod_eq_iff)
  note r = completeTask_after_stop [OF tk own st s(4)]
  show "fst (completeTask w now t m) = Inr (tk\<lparr>status := DONE, task_updatedAt := now\<rparr>, Some ?a')"
    by (simp add: r)
  have "timeEntries (snd (completeTask w now t m)) = put_doc te_id ?a' (timeEntries w)"
    by (simp add: r createActivity_frame task_update_frame s(2))
  moreover have "find (\<lambda>x. te_id x = te_id a) (put_doc te_id ?a' (timeEntries w)) = Some ?a'"
    using find_put_doc_same [of te_id "te_id a" "timeEntries w" a ?a'] f
    by (simp add: te_findById_def)
  ultimately show "te_findById (snd (completeTask w now t m)) (te_id a) = Some ?a'"
    by (simp add: te_findById_def)
  have tk1: "task_findById ?w1 t = Some tk"
    using tk task_findById_cong [OF s(4)] by simp
  have "task_findById (snd (completeTask w now t m)) t =
          task_findById (snd (task_update ?w1 now t (status_only DONE))) t"
    unfolding r snd_conv
    by (rule task_findById_cong) (simp add: createActivity_frame)
  then show "task_findById (snd (completeTask w now t m)) t =
           Some (tk\<lparr>status := DONE, task_updatedAt := now\<rparr>)"
    by (simp add: task_findById_after_update [OF tk1])
  show "activities (snd (completeTask w now t m)) =
           activities w @
             [\<lparr>act_id = shd (uuids w), act_taskId = t, act_type = TIMER_STOPPED,
               act_message = ''Stopped timer ('' @ show_int ((now - startTime a) div 1000 div 60)
                   @ ''m '' @ show_int ((now - startTime a) div 1000 mod 60) @ ''s)'',
               actorUserId = m, act_createdAt = now, act_updatedAt = now\<rparr>,
              \<lparr>act_id = shd (stl (uuids w)), act_taskId = t, act_type = TASK_STATUS_CHANGED,
               act_message = ''Task completed'', actorUserId = m, act_createdAt = now,
               act_updatedAt = now\<rparr>]"
    using a(4) by (simp add: r createActivity_frame task_update_frame s(3) s(6))
qed

lemma completeTask_guard_fails:
  assumes tk: "task_findById w t = Some tk" and own: "assigneeUserId tk = Some m"
    and ids: "unique_entry_ids w" and one: "at_most_one_active w m"
    and a: "a \<in> set (timeEntries w)" "te_userId a = m" "endTime a = None" "te_taskId a = t"
    and ge: "startTime a \<ge> now"
  shows "completeTask w now t m = (Inl (Error ''Start time must be before end time''), w)"
proof -
  have act: "getActiveTimeEntry w m = Some a"
    using find_single [of "\<lambda>e. te_userId e = m \<and> endTime e = None" "timeEntries w" a] one a
    by (simp add: getActiveTimeEntry_def findActiveByUser_def at_most_one_active_def)
  have f: "te_findById w (te_id a) = Some a"
    using find_distinct_key [of te_id "timeEntries w" a] ids a(1)
    by (simp add: te_findById_def unique_entry_ids_def)
  have st: "(case getActiveTimeEntry w m of
                None \<Rightarrow> (Inr None, w)
              | Some a \<Rightarrow> if te_taskId a = t then stopTimeEntry w now m (te_id a)
                          else (Inr None, w)) =
            (Inl (Error ''Start time must be before end time''), w)"
    using act a(4) stop_guard [OF f a(2) a(3) ge] by simp
  show ?thesis
    by (rule completeTask_stop_fails [OF tk own st])
qed

lemma completeTask_no_timer:
  assumes tk: "task_findById w t = Some tk" and own: "assigneeUserId tk = Some m"
    and none: "\<forall>e\<in>set (timeEntries w). te_userId e = m \<and> endTime e = None \<longrightarrow> te_taskId e \<noteq> t"
  shows "fst (completeTask w now t m) =
           Inr (tk\<lparr>status := DONE, task_updatedAt := now\<rparr>, None)"
    and "timeEntries (snd (completeTask w now t m)) = timeEntries w"
    and "task_findById (snd (completeTask w now t m)) t =
           Some (tk\<lparr>status := DONE, task_updatedAt := now\<rparr>)"
    and "activities (snd (completeTask w now t m)) =
           activities w @
             [\<lparr>act_id = shd (uuids w), act_taskId = t, act_type = TASK_STATUS_CHANGED,
               act_message = ''Task completed'', actorUserId = m, act_createdAt = now,
               act_updatedAt = now\<rparr>]"
proof -
  have st: "(case getActiveTimeEntry w m of
                None \<Rightarrow> (Inr None, w)
              | Some a \<Rightarrow> if te_taskId a = t then stopTimeEntry w now m (te_id a)
                          else (Inr None, w)) = (Inr None, w)"
  proof (cases "getActiveTimeEntry w m")
    case None
    then show ?thesis by simp
  next
    case (Some a)
    then have "te_userId a = m \<and> endTime a = None \<and> a \<in> set (timeEntries w)"
      using find_Some_P [of "\<lambda>e. te_userId e = m \<and> endTime e = None" "timeEntries w" a]
      by (simp add: getActiveTimeEntry_def findActiveByUser_def)
    with none have "te_taskId a \<noteq> t"
      by blast
    with Some show ?thesis by simp
  qed
  note r = completeTask_after_stop [OF tk own st refl]
  show "fst (completeTask w now t m) = Inr (tk\<lparr>status := DONE, task_updatedAt := now\<rparr>, None)"
    by (simp add: r)
  show "timeEntries (snd (completeTask w now t m)) = timeEntries w"
    by (simp add: r createActivity_frame task_update_frame)
  have "task_findById (snd (completeTask w now t m)) t =
          task_findById (snd (task_update w now t (status_only DONE))) t"
    unfolding r snd_conv
    by (rule task_findById_cong) (simp add: createActivity_frame)
  then show "task_findById (snd (completeTask w now t m)) t =
       Some (tk\<lparr>status := DONE, task_updatedAt := now\<rparr>)"
    by (simp add: task_findById_after_update [OF tk])
  show "activities (snd (completeTask w now t m)) =
           activities w @
             [\<lparr>act_id = shd (uuids w), act_taskId = t, act_type = TASK_STATUS_CHANGED,
               act_message = ''Task completed'', actorUserId = m, act_createdAt = now,
               act_updatedAt = now\<rparr>]"
    by (simp add: r createActivity_frame task_update_frame)
qed

text \<open>
  Claim C4. \<open>completeTask\<close> fails with \<^verbatim>\<open>Task not found\<close> when the task is missing and
  with the Forbidden error when the caller is not the assignee. Otherwise, under the
  invariants of the data model (unique entry ids, at most one running entry per user):
  when the member's running entry is on the task and was started before \<open>now\<close>, the
  entry is stopped with the duration of the stop operation, then the task is set to
  \<open>DONE\<close>; the call returns the updated task and the stopped entry, and the activity log
  grows by the \<open>TIMER_STOPPED\<close> activity of the stop followed by exactly one
  \<open>TASK_STATUS_CHANGED\<close> activity with the message \<^verbatim>\<open>Task completed\<close>. When that entry
  was not started before \<open>now\<close>, the guard of the stop fails, the error reaches the
  caller and the store is as before: the task is not set to \<open>DONE\<close>. When the member has no
  running entry on the task, it is set to \<open>DONE\<close>, the returned entry is null and
  the log grows by the one \<open>TASK_STATUS_CHANGED\<close> activity.
\<close>

theorem completeTask_contract:
  "(task_findById w t = None \<longrightarrow>
      completeTask w now t m = (Inl (Error ''Task not found''), w)) \<and>
   (task_findById w t = Some tk \<and> assigneeUserId tk \<noteq> Some m \<longrightarrow>
      completeTask w now t m =
        (Inl (Error ''Forbidden: You can only complete tasks assigned to you''), w)) \<and>
   (task_findById w t = Some tk \<and> assigneeUserId tk = Some m \<and>
    unique_entry_ids w \<and> at_most_one_active w m \<and>
    a \<in> set (timeEntries w) \<and> te_userId a = m \<and> endTime a = None \<and> te_taskId a = t \<and>
    startTime a < now \<longrightarrow>
      fst (completeTask w now t m) =
        Inr (tk\<lparr>status := DONE, task_updatedAt := now\<rparr>,
             Some (a\<lparr>endTime := Some now,
                     durationSeconds := Some ((now - startTime a) div 1000),
                     te_updatedAt := now\<rparr>)) \<and>
      te_findById (snd (completeTask w now t m)) (te_id a) =
        Some (a\<lparr>endTime := Some now,
                durationSeconds := Some ((now - startTime a) div 1000),
                te_updatedAt := now\<rparr>) \<and>
      task_findById (snd (completeTask w now t m)) t =
        Some (tk\<lparr>status := DONE, task_updatedAt := now\<rparr>) \<and>
      activities (snd (completeTask w now t m)) =
        activities w @
          [\<lparr>act_id = shd (uuids w), act_taskId = t, act_type = TIMER_STOPPED,
            act_message = ''Stopped timer ('' @ show_int ((now - startTime a) div 1000 div 60)
                @ ''m '' @ show_int ((now - startTime a) div 1000 mod 60) @ ''s)'',
            actorUserId = m, act_createdAt = now, act_updatedAt = now\<rparr>,
           \<lparr>act_id = shd (stl (uuids w)), act_taskId = t, act_type = TASK_STATUS_CHANGED,
            act_message = ''Task completed'', actorUserId = m, act_createdAt = now,
            act_updatedAt = now\<rparr>]) \<and>
   (task_findById w t = Some tk \<and> assigneeUserId tk = Some m \<and>
    unique_entry_ids w \<and> at_most_one_active w m \<and>
    a \<in> set (timeEntries w) \<and> te_userId a = m \<and> endTime a = None \<and> te_taskId a = t \<and>
    startTime a \<ge> now \<longrightarrow>
      completeTask w now t m = (Inl (Error ''Start time must be before end time''), w)) \<and>
   (task_findById w t = Some tk \<and> assigneeUserId tk = Some m \<and>
    (\<forall>e\<in>set (timeEntries w). te_userId e = m \<and> endTime e = None \<longrightarrow> te_taskId e \<noteq> t) \<longrightarrow>
      fst (completeTask w now t m) =
        Inr (tk\<lparr>status := DONE, task_updatedAt := now\<rparr>, None) \<and>
      timeEntries (snd (completeTask w now t m)) = timeEntries w \<and>
      task_findById (snd (completeTask w now t m)) t =
        Some (tk\<lparr>status := DONE, task_updatedAt := now\<rparr>) \<and>
      activities (snd (completeTask w now t m)) =
        activities w @
          [\<lparr>act_id = shd (uuids w), act_taskId = t, act_type = TASK_STATUS_CHANGED,
            act_message = ''Task completed'', actorUserId = m, act_createdAt = now,
            act_updatedAt = now\<rparr>])"
proof (intro conjI impI)
  assume "task_findById w t = None"
  then show "completeTask w now t m = (Inl (Error ''Task not found''), w)"
    by (simp add: completeTask_def)
next
  assume "task_findById w t = Some tk \<and> assigneeUserId tk \<noteq> Some m"
  then show "completeTask w now t m =
        (Inl (Error ''Forbidden: You can only complete tasks assigned to you''), w)"
    by (simp add: completeTask_def)
next
  assume h: "task_findById w t = Some tk \<and> assigneeUserId tk = Some m \<and>
    unique_entry_ids w \<and> at_most_one_active w m \<and>
    a \<in> set (timeEntries w) \<and> te_userId a = m \<and> endTime a = None \<and> te_taskId a = t \<and>
    startTime a < now"
  then have p: "task_findById w t = Some tk" "assigneeUserId tk = Some m" "unique_entry_ids w"
      "at_most_one_active w m" "a \<in> set (timeEntries w)" "te_userId a = m" "endTime a = None"
      "te_taskId a = t" "startTime a < now"
    by simp_all
  note r = completeTask_stops_own_timer [OF p]
  show "fst (completeTask w now t m) =
        Inr (tk\<lparr>status := DONE, task_updatedAt := now\<rparr>,
             Some (a\<lparr>endTime := Some now,
                     durationSeconds := Some ((now - startTime a) div 1000),
                     te_updatedAt := now\<rparr>))"
    by (rule r(1))
  show "te_findById (snd (completeTask w now t m)) (te_id a) =
        Some (a\<lparr>endTime := Some now,
                durationSeconds := Some ((now - startTime a) div 1000),
                te_updatedAt := now\<rparr>)"
    by (rule r(2))
  show "task_findById (snd (completeTask w now t m)) t =
        Some (tk\<lparr>status := DONE, task_updatedAt := now\<rparr>)"
    by (rule r(3))
  show "activities (snd (completeTask w now t m)) =
        activities w @
          [\<lparr>act_id = shd (uuids w), act_taskId = t, act_type = TIMER_STOPPED,
            act_message = ''Stopped timer ('' @ show_int ((now - startTime a) div 1000 div 60)
                @ ''m '' @ show_int ((now - startTime a) div 1000 mod 60) @ ''s)'',
            actorUserId = m, act_createdAt = now, act_updatedAt = now\<rparr>,
           \<lparr>act_id = shd (stl (uuids w)), act_taskId = t, act_type = TASK_STATUS_CHANGED,
            act_message = ''Task completed'', actorUserId = m, act_createdAt = now,
            act_updatedAt = now\<rparr>]"
    by (rule r(4))
next
  assume h: "task_findById w t = Some tk \<and> assigneeUserId tk = Some m \<and>
    unique_entry_ids w \<and> at_most_one_active w m \<and>
    a \<in> set (timeEntries w) \<and> te_userId a = m \<and> endTime a = None \<and> te_taskId a = t \<and>
    startTime a \<ge> now"
  then have p: "task_findById w t = Some tk" "assigneeUserId tk = Some m" "unique_entry_ids w"
      "at_most_one_active w m" "a \<in> set (timeEntries w)" "te_userId a = m" "endTime a = None"
      "te_taskId a = t" "startTime a \<ge> now"
    by simp_all
  show "completeTask w now t m = (Inl (Error ''Start time must be before end time''), w)"
    by (rule completeTask_guard_fails [OF p])
next
  assume h: "task_findById w t = Some tk \<and> assigneeUserId tk = Some m \<and>
    (\<forall>e\<in>set (timeEntries w). te_userId e = m \<and> endTime e = None \<longrightarrow> te_taskId e \<noteq> t)"
  then have p: "task_findById w t = Some tk" "assigneeUserId tk = Some m"
      "\<forall>e\<in>set (timeEntries w). te_userId e = m \<and> endTime e = None \<longrightarrow> te_taskId e \<noteq> t"
    by simp_all
  note r = completeTask_no_timer [OF p]
  show "fst (completeTask w now t m) =
        Inr (tk\<lparr>status := DONE, task_updatedAt := now\<rparr>, None)"
    by (rule r(1))
  show "timeEntries (snd (completeTask w now t m)) = timeEntries w"
    by (rule r(2))
  show "task_findById (snd (completeTask w now t m)) t =
        Some (tk\<lparr>status := DONE, task_updatedAt := now\<rparr>)"
    by (rule r(3))
  show "activities (snd (completeTask w now t m)) =
        activities w @
          [\<lparr>act_id = shd (uuids w), act_taskId = t, act_type = TASK_STATUS_CHANGED,
            act_message = ''Task completed'', actorUserId = m, act_createdAt = now,
            act_updatedAt = now\<rparr>]"
    by (rule r(4))
qed

theorem completeTask_contract_witness:
  "task_findById ex_running ''t9'' = None \<and>
   completeTask ex_running 1090000 ''t9'' ''u1'' = (Inl (Error ''Task not found''), ex_running) \<and>
   task_findById ex_running ''t2'' = Some ex_task2 \<and> assigneeUserId ex_task2 \<noteq> Some ''u1'' \<and>
   completeTask ex_running 1090000 ''t2'' ''u1'' =
     (Inl (Error ''Forbidden: You can only complete tasks assigned to you''), ex_running) \<and>
   task_findById ex_running ''t1'' = Some ex_task1 \<and> assigneeUserId ex_task1 = Some ''u1'' \<and>
   unique_entry_ids ex_running \<and> at_most_one_active ex_running ''u1'' \<and>
   ex_entry1 \<in> set (timeEntries ex_running) \<and> te_userId ex_entry1 = ''u1'' \<and>
   endTime ex_entry1 = None \<and> te_taskId ex_entry1 = ''t1'' \<and> startTime ex_entry1 < 1090000 \<and>
   fst (completeTask ex_running 1090000 ''t1'' ''u1'') =
     Inr (ex_task1\<lparr>status := DONE, task_updatedAt := 1090000\<rparr>,
          Some (ex_entry1\<lparr>endTime := Some 1090000, durationSeconds := Some 90,
                           te_updatedAt := 1090000\<rparr>)) \<and>
   map act_type (activities (snd (completeTask ex_running 1090000 ''t1'' ''u1''))) =
     [TIMER_STOPPED, TASK_STATUS_CHANGED] \<and>
   map act_message (activities (snd (completeTask ex_running 1090000 ''t1'' ''u1''))) =
     [''Stopped timer (1m 30s)'', ''Task completed''] \<and>
   startTime ex_entry1 \<ge> 1000000 \<and>
   completeTask ex_running 1000000 ''t1'' ''u1'' =
     (Inl (Error ''Start time must be before end time''), ex_running) \<and>
   task_findById ex_idle ''t1'' = Some ex_task1 \<and>
   fst (completeTask ex_idle 1090000 ''t1'' ''u1'') =
     Inr (ex_task1\<lparr>status := DONE, task_updatedAt := 1090000\<rparr>, None) \<and>
   timeEntries (snd (completeTask ex_idle 1090000 ''t1'' ''u1'')) = timeEntries ex_idle \<and>
   map act_message (activities (snd (completeTask ex_idle 1090000 ''t1'' ''u1''))) =
     [''Task completed'']"
  using completeTask_contract [where w = ex_running and t = "''t9''" and now = 1090000
      and m = "''u1''"]
    completeTask_contract [where w = ex_running and t = "''t2''" and now = 1090000
      and m = "''u1''" and tk = ex_task2]
    completeTask_contract [where w = ex_running and t = "''t1''" and now = 1090000
      and m = "''u1''" and tk = ex_task1 and a = ex_entry1]
    completeTask_contract [where w = ex_running and t = "''t1''" and now = 1000000
      and m = "''u1''" and tk = ex_task1 and a = ex_entry1]
    completeTask_contract [where w = ex_idle and t = "''t1''" and now = 1090000
      and m = "''u1''" and tk = ex_task1]
  by (simp add: ex_defs task_findById_def mapDocumentToTask_def unique_entry_ids_def
      at_most_one_active_def show_int_def show_nat.simps digit_char_def)

text \<open>
  The claim as written lists two failures and, otherwise, the stop and the update. In
  \<open>ex_running\<close> the task \<open>t1\<close> exists, is assigned to \<open>u1\<close>, and \<open>u1\<close> has a running entry
  on it started at 1000000 ms; a call at that same instant fails with the guard's error,
  and neither the entry nor the task is changed.
\<close>

theorem completeTask_guard_counterexample:
  "task_findById ex_running ''t1'' = Some ex_task1 \<and> assigneeUserId ex_task1 = Some ''u1'' \<and>
   getActiveTimeEntry ex_running ''u1'' = Some ex_entry1 \<and> te_taskId ex_entry1 = ''t1'' \<and>
   completeTask ex_running 1000000 ''t1'' ''u1'' =
     (Inl (Error ''Start time must be before end time''), ex_running) \<and>
   status ex_task1 = TODO"
  by (simp add: ex_defs completeTask_def getActiveTimeEntry_def te_service_defs)

text \<open>
  Claim C10. When the task exists and is assigned to the member, and the running entry
  that \<open>getActiveTimeEntry\<close> finds for the member (if there is one) is on another task,
  \<open>completeTask\<close> leaves the time entries as they are, so that entry is still running,
  returns null for the stopped entry, and sets the task to \<open>DONE\<close>.
\<close>

theorem completeTask_other_task_timer_untouched:
  "task_findById w t = Some tk \<and> assigneeUserId tk = Some m \<and>
   (getActiveTimeEntry w m = None \<or>
    (getActiveTimeEntry w m = Some a \<and> te_taskId a \<noteq> t)) \<longrightarrow>
     fst (completeTask w now t m) = Inr (tk\<lparr>status := DONE, task_updatedAt := now\<rparr>, None) \<and>
     timeEntries (snd (completeTask w now t m)) = timeEntries w \<and>
     getActiveTimeEntry (snd (completeTask w now t m)) m = getActiveTimeEntry w m \<and>
     task_findById (snd (completeTask w now t m)) t =
       Some (tk\<lparr>status := DONE, task_updatedAt := now\<rparr>)"
proof (intro impI)
  assume h: "task_findById w t = Some tk \<and> assigneeUserId tk = Some m \<and>
   (getActiveTimeEntry w m = None \<or>
    (getActiveTimeEntry w m = Some a \<and> te_taskId a \<noteq> t))"
  then have st: "(case getActiveTimeEntry w m of
                None \<Rightarrow> (Inr None, w)
              | Some a \<Rightarrow> if te_taskId a = t then stopTimeEntry w now m (te_id a)
                          else (Inr None, w)) = (Inr None, w)"
    by auto
  from h have tk: "task_findById w t = Some tk" and own: "assigneeUserId tk = Some m"
    by simp_all
  note r = completeTask_after_stop [OF tk own st refl]
  have te: "timeEntries (snd (completeTask w now t m)) = timeEntries w"
    by (simp add: r createActivity_frame task_update_frame)
  have "task_findById (snd (completeTask w now t m)) t =
          task_findById (snd (task_update w now t (status_only DONE))) t"
    unfolding r snd_conv
    by (rule task_findById_cong) (simp add: createActivity_frame)
  then have tf: "task_findById (snd (completeTask w now t m)) t =
       Some (tk\<lparr>status := DONE, task_updatedAt := now\<rparr>)"
    by (simp add: task_findById_after_update [OF tk])
  from te have "getActiveTimeEntry (snd (completeTask w now t m)) m = getActiveTimeEntry w m"
    by (simp add: getActiveTimeEntry_def findActiveByUser_def)
  with te tf show "fst (completeTask w now t m) = Inr (tk\<lparr>status := DONE, task_updatedAt := now\<rparr>, None) \<and>
     timeEntries (snd (completeTask w now t m)) = timeEntries w \<and>
     getActiveTimeEntry (snd (completeTask w now t m)) m = getActiveTimeEntry w m \<and>
     task_findById (snd (completeTask w now t m)) t =
       Some (tk\<lparr>status := DONE, task_updatedAt := now\<rparr>)"
    by (simp add: r)
qed


theorem completeTask_other_task_timer_untouched_witness:
  "task_findById ex_running ''t4'' = Some ex_task4 \<and> assigneeUserId ex_task4 = Some ''u1'' \<and>
   getActiveTimeEntry ex_running ''u1'' = Some ex_entry1 \<and> te_taskId ex_entry1 \<noteq> ''t4'' \<and>
   fst (completeTask ex_running 1090000 ''t4'' ''u1'') =
     Inr (ex_task4\<lparr>status := DONE, task_updatedAt := 1090000\<rparr>, None) \<and>
   timeEntries (snd (completeTask ex_running 1090000 ''t4'' ''u1'')) = timeEntries ex_running \<and>
   getActiveTimeEntry (snd (completeTask ex_running 1090000 ''t4'' ''u1'')) ''u1'' =
     Some ex_entry1 \<and>
   task_findById (snd (completeTask ex_running 1090000 ''t4'' ''u1'')) ''t4'' =
     Some (ex_task4\<lparr>status := DONE, task_updatedAt := 1090000\<rparr>)"
  using completeTask_other_task_timer_untouched [where w = ex_running and t = "''t4''"
      and tk = ex_task4 and m = "''u1''" and a = ex_entry1 and now = 1090000]
  by (simp add: ex_defs task_findById_def mapDocumentToTask_def getActiveTimeEntry_def
      findActiveByUser_def)

section \<open>Updating a task as admin\<close>

text \<open>
  Which activities one update emits, by type and in order: one for the status, the
  assignee, the priority and the tags when the patch holds the field with a value that
  differs from the stored one, and one for the due date whenever the patch holds the field.
\<close>

lemma updateTaskAsAdmin_activity_types:
  assumes "task_findById w t = Some existing"
  shows "map act_type (activities (snd (updateTaskAsAdmin isoDate w now t patch actor))) =
           map act_type (activities w) @
           (case tp_status patch of
              None \<Rightarrow> [] | Some s \<Rightarrow> if s \<noteq> status existing then [TASK_STATUS_CHANGED] else []) @
           (case tp_assigneeUserId patch of
              None \<Rightarrow> []
            | Some a \<Rightarrow> if a \<noteq> assigneeUserId existing then [TASK_ASSIGNED] else []) @
           (case tp_priority patch of
              None \<Rightarrow> []
            | Some p \<Rightarrow> if p \<noteq> priority existing then [TASK_PRIORITY_CHANGED] else []) @
           (case tp_dueDate patch of None \<Rightarrow> [] | Some d \<Rightarrow> [TASK_DUE_DATE_CHANGED]) @
           (case tp_tags patch of
              None \<Rightarrow> [] | Some tg \<Rightarrow> if tg \<noteq> tags existing then [TASK_TAGS_CHANGED] else [])"
proof -
  from assms obtain raw where raw: "find (\<lambda>x. task_id x = t) (tasks w) = Some raw"
    by (auto simp add: task_findById_def)
  show ?thesis
    using assms raw
    by (simp add: updateTaskAsAdmin_def task_update_def Let_def createActivity_frame
        split: option.splits)
qed


text \<open>
  Claim C5 says that a \<open>TASK_DUE_DATE_CHANGED\<close> activity is emitted if and only if the new
  due date differs from the prior one. The code compares the other four fields with the
  stored task but not this one. Task \<open>t2\<close> has the due date 5000 and the patch
  \<open>ex_same_due\<close> sets it to 5000; task \<open>t1\<close> has no due date and the patch \<open>ex_null_due\<close>
  sets it to null. In both updates the stored task changes in \<open>updatedAt\<close> only, and a
  \<open>TASK_DUE_DATE_CHANGED\<close> activity is emitted.
\<close>

theorem updateTaskAsAdmin_same_dueDate_emits:
  "dueDate ex_task2 = Some 5000 \<and> tp_dueDate ex_same_due = Some (Some 5000) \<and>
   fst (updateTaskAsAdmin isoDate ex_idle 2000000 ''t2'' ex_same_due ''admin'') =
     Some (ex_task2\<lparr>task_updatedAt := 2000000\<rparr>) \<and>
   activities (snd (updateTaskAsAdmin isoDate ex_idle 2000000 ''t2'' ex_same_due ''admin'')) =
     [\<lparr>act_id = ''id'', act_taskId = ''t2'', act_type = TASK_DUE_DATE_CHANGED,
       act_message = ''Due date set to '' @ isoDate 5000, actorUserId = ''admin'',
       act_createdAt = 2000000, act_updatedAt = 2000000\<rparr>] \<and>
   dueDate ex_task1 = None \<and> tp_dueDate ex_null_due = Some None \<and>
   fst (updateTaskAsAdmin isoDate ex_idle 2000000 ''t1'' ex_null_due ''admin'') =
     Some (ex_task1\<lparr>task_updatedAt := 2000000\<rparr>) \<and>
   activities (snd (updateTaskAsAdmin isoDate ex_idle 2000000 ''t1'' ex_null_due ''admin'')) =
     [\<lparr>act_id = ''id'', act_taskId = ''t1'', act_type = TASK_DUE_DATE_CHANGED,
       act_message = ''Due date set to None'', actorUserId = ''admin'',
       act_createdAt = 2000000, act_updatedAt = 2000000\<rparr>]"
  by (simp add: ex_defs ex_same_due_def ex_null_due_def updateTaskAsAdmin_def task_findById_def
      task_update_def apply_taskPatch_def mapDocumentToTask_def createActivity_def
      randomUUID_def Let_def)

section \<open>Listing the tasks of a member\<close>

lemma set_insert_by: "set (insert_by cmp x ys) = insert x (set ys)"
  by (induction ys) auto

lemma set_array_sort: "set (array_sort cmp xs) = set xs"
  by (induction xs) (simp_all add: array_sort_def set_insert_by)

lemma searchAndFilter_assignee_scoped:
  assumes "f_assigneeUserId f = Some m" and "m \<noteq> []"
  shows "set (searchAndFilter w f) \<subseteq> set (listByAssignee w m)"
proof -
  let ?q3 = "filter (\<lambda>t. assigneeUserId t = Some m) (tasks w)"
  have "set (searchAndFilter w f) \<subseteq> mapDocumentToTask ` set ?q3"
    using assms
    by (auto simp add: searchAndFilter_def Let_def truthy_def set_array_sort
        split: option.splits if_splits)
  then show ?thesis
    by (simp add: listByAssignee_def)
qed

lemma listByAssignee_assignee:
  assumes "m \<noteq> []" and "t \<in> set (listByAssignee w m)"
  shows "assigneeUserId t = Some m"
  using assms by (auto simp add: listByAssignee_def mapDocumentToTask_def)

text \<open>
  Claim C7. For every non-empty member id and every filter argument, each task that
  \<open>listTasksForMember\<close> returns is assigned to the member, and the returned tasks are among
  those of the unfiltered listing \<open>listByAssignee\<close>: the caller's filters only narrow it.
\<close>

theorem listTasksForMember_scoped:
  "m \<noteq> [] \<longrightarrow>
     (\<forall>t\<in>set (listTasksForMember w m filters). assigneeUserId t = Some m) \<and>
     set (listTasksForMember w m filters) \<subseteq> set (listByAssignee w m)"
proof (intro impI)
  assume m: "m \<noteq> []"
  have sub: "set (listTasksForMember w m filters) \<subseteq> set (listByAssignee w m)"
  proof (cases filters)
    case None
    then show ?thesis
      by (simp add: listTasksForMember_def)
  next
    case (Some f)
    show ?thesis
    proof (cases "has_keys f")
      case True
      have "set (searchAndFilter w (f\<lparr>f_assigneeUserId := Some m\<rparr>)) \<subseteq> set (listByAssignee w m)"
        by (rule searchAndFilter_assignee_scoped) (simp_all add: m)
      with Some True show ?thesis
        by (simp add: listTasksForMember_def)
    next
      case False
      with Some show ?thesis
        by (simp add: listTasksForMember_def)
    qed
  qed
  with m show "(\<forall>t\<in>set (listTasksForMember w m filters). assigneeUserId t = Some m) \<and>
     set (listTasksForMember w m filters) \<subseteq> set (listByAssignee w m)"
    using listByAssignee_assignee [OF m] by blast
qed

theorem listTasksForMember_scoped_witness:
  "''u1'' \<noteq> [] \<and>
   listTasksForMember ex_idle ''u1'' (Some ex_todo_filter) = [ex_task1, ex_task4] \<and>
   assigneeUserId ex_task1 = Some ''u1'' \<and> assigneeUserId ex_task4 = Some ''u1'' \<and>
   listByAssignee ex_idle ''u1'' = [ex_task1, ex_task4]"
  using listTasksForMember_scoped [where m = "''u1''" and w = ex_idle
      and filters = "Some ex_todo_filter"]
  by (simp add: ex_defs ex_todo_filter_def listTasksForMember_def has_keys_def
      searchAndFilter_def listByAssignee_def truthy_def mapDocumentToTask_def Let_def)

text \<open>
  The claim as written is for every member id. With the empty string as member id and a
  filter on the status, the repository reads the empty assignee filter as absent and
  returns the tasks of every user: the listing for the empty id holds \<open>t1\<close>, which is
  assigned to \<open>u1\<close>.
\<close>

theorem listTasksForMember_empty_id_counterexample:
  "ex_task1 \<in> set (listTasksForMember ex_idle [] (Some ex_todo_filter)) \<and>
   assigneeUserId ex_task1 \<noteq> Some [] \<and>
   ex_task1 \<notin> set (listByAssignee ex_idle [])"
  by (simp add: ex_defs ex_todo_filter_def listTasksForMember_def has_keys_def
      searchAndFilter_def listByAssignee_def truthy_def mapDocumentToTask_def Let_def)

section \<open>Time report\<close>

lemma or_zero_simp: "or_zero v = (case v of None \<Rightarrow> 0 | Some c \<Rightarrow> c)"
  by (simp add: or_zero_def split: option.splits)

lemma aggregate_distinct:
  "distinct (map fst acc) \<Longrightarrow> distinct (map fst (aggregate es acc))"
  by (induction es arbitrary: acc) (auto simp add: Let_def distinct_update split: option.splits)

lemma aggregate_lookup:
  "map_of (aggregate es acc) u =
     (if filter (positive_for u) es = [] then map_of acc u
      else Some (or_zero (map_of acc u) + sum_list (map duration_of (filter (positive_for u) es))))"
proof (induction es arbitrary: acc)
  case Nil
  then show ?case by simp
next
  case (Cons e es)
  show ?case
  proof (cases "durationSeconds e")
    case None
    then have "\<not> positive_for u e"
      by (simp add: positive_for_def)
    with None show ?thesis
      using Cons.IH [of acc] by simp
  next
    case (Some d)
    show ?thesis
    proof (cases "d > 0")
      case False
      with Some have "\<not> positive_for u e"
        by (simp add: positive_for_def)
      with Some False show ?thesis
        using Cons.IH [of acc] by simp
    next
      case True
      let ?acc' = "AList.update (te_userId e) (or_zero (map_of acc (te_userId e)) + d) acc"
      have step: "aggregate (e # es) acc = aggregate es ?acc'"
        using Some True by (simp add: Let_def)
      show ?thesis
      proof (cases "te_userId e = u")
        case same: True
        have look: "map_of ?acc' u = Some (or_zero (map_of acc u) + d)"
          using same by (simp add: update_conv')
        have pos: "positive_for u e"
          using same Some True by (simp add: positive_for_def)
        show ?thesis
          unfolding step Cons.IH [of ?acc'] look
          using pos Some by (simp add: or_zero_simp duration_of_def)
      next
        case other: False
        have look: "map_of ?acc' u = map_of acc u"
          using other by (simp add: update_conv')
        have pos: "\<not> positive_for u e"
          using other by (simp add: positive_for_def)
        show ?thesis
          unfolding step Cons.IH [of ?acc'] look
          using pos by simp
      qed
    qed
  qed
qed

lemma filter_positive_completed:
  "filter (positive_for u) (listCompletedInRange w from to) =
     filter (contributes from to u) (timeEntries w)"
  by (auto simp add: listCompletedInRange_def positive_for_def contributes_def
      intro!: filter_cong split: option.splits)

lemma distinct_insert_by:
  "distinct (map f (insert_by cmp x ys)) \<longleftrightarrow> f x \<notin> f ` set ys \<and> distinct (map f ys)"
  by (induction ys) (auto simp add: set_insert_by)

lemma distinct_array_sort:
  "distinct (map f (array_sort cmp xs)) \<longleftrightarrow> distinct (map f xs)"
proof (induction xs)
  case Nil
  then show ?case by (simp add: array_sort_def)
next
  case (Cons x xs)
  have "array_sort cmp (x # xs) = insert_by cmp x (array_sort cmp xs)"
    by (simp add: array_sort_def)
  then show ?case
    using Cons by (simp add: distinct_insert_by set_array_sort)
qed

lemma sorted_insert_by:
  assumes "consistent_comparator cmp" and "sorted_wrt (\<lambda>a b. cmp a b \<le> 0) ys"
  shows "sorted_wrt (\<lambda>a b. cmp a b \<le> 0) (insert_by cmp x ys)"
  using assms(2)
proof (induction ys)
  case Nil
  then show ?case by simp
next
  case (Cons y ys)
  show ?case
  proof (cases "cmp x y \<le> 0")
    case True
    have "\<forall>z\<in>set ys. cmp x z \<le> 0"
    proof
      fix z assume "z \<in> set ys"
      with Cons.prems have "cmp y z \<le> 0" by simp
      with True assms(1) show "cmp x z \<le> 0"
        unfolding consistent_comparator_def by blast
    qed
    with True Cons.prems show ?thesis by simp
  next
    case False
    then have "cmp y x \<le> 0"
      using assms(1) unfolding consistent_comparator_def by (meson not_le)
    with False Cons show ?thesis
      by (auto simp add: set_insert_by)
  qed
qed

lemma sorted_array_sort:
  assumes "consistent_comparator cmp"
  shows "sorted_wrt (\<lambda>a b. cmp a b \<le> 0) (array_sort cmp xs)"
proof (induction xs)
  case Nil
  then show ?case by (simp add: array_sort_def)
next
  case (Cons x xs)
  have "array_sort cmp (x # xs) = insert_by cmp x (array_sort cmp xs)"
    by (simp add: array_sort_def)
  with Cons show ?case
    by (simp add: sorted_insert_by [OF assms])
qed

lemma consistent_on_rows:
  "consistent_comparator lc \<Longrightarrow>
   consistent_comparator (\<lambda>a b. lc (userId a) (userId b))"
  unfolding consistent_comparator_def by blast

text \<open>
  Claim C6. \<open>getTimeTotalsByUser\<close> fails with the invalid date range error when
  \<open>from > to\<close>. Otherwise it returns one row per user who has a contributing entry, and
  no row for any other user; the row of a user holds the sum of the durations of the user's
  contributing entries, that is of the stopped entries that start within \<open>[from, to]\<close>
  and have a positive duration. The rows are in ascending order of the user id under the
  comparator \<^verbatim>\<open>localeCompare\<close>, the parameter \<open>lc\<close>, for every consistent comparator.
\<close>

theorem getTimeTotalsByUser_report:
  "(from > to \<longrightarrow>
      getTimeTotalsByUser lc isoDate w from to =
        Inl (Error ''Invalid date range: \"from\" date must be before or equal to \"to\" date'')) \<and>
   (from \<le> to \<longrightarrow>
      (\<exists>rows. getTimeTotalsByUser lc isoDate w from to =
                 Inr \<lparr>r_from = isoDate from, r_to = isoDate to, totals = rows\<rparr> \<and>
              distinct (map userId rows) \<and>
              map_of (row_pairs rows) u =
                (if filter (contributes from to u) (timeEntries w) = [] then None
                 else Some (expected_total w from to u)) \<and>
              (consistent_comparator lc \<longrightarrow>
                 sorted_wrt (\<lambda>a b. lc (userId a) (userId b) \<le> 0) rows)))"
proof (intro conjI impI)
  assume "from > to"
  then show "getTimeTotalsByUser lc isoDate w from to =
        Inl (Error ''Invalid date range: \"from\" date must be before or equal to \"to\" date'')"
    by (simp add: getTimeTotalsByUser_def)
next
  assume le: "from \<le> to"
  let ?acc = "aggregate (listCompletedInRange w from to) []"
  let ?unsorted = "map (\<lambda>(u, s). \<lparr>userId = u, totalDurationSeconds = s\<rparr>) ?acc"
  let ?cmp = "\<lambda>a b. lc (userId a) (userId b)"
  let ?rows = "array_sort ?cmp ?unsorted"
  have res: "getTimeTotalsByUser lc isoDate w from to =
                 Inr \<lparr>r_from = isoDate from, r_to = isoDate to, totals = ?rows\<rparr>"
    using le by (simp add: getTimeTotalsByUser_def Let_def)
  have keys: "map (userId \<circ> (\<lambda>(u, s). \<lparr>userId = u, totalDurationSeconds = s\<rparr>)) ?acc =
                map fst ?acc"
    by (simp add: comp_def case_prod_beta)
  have d_acc: "distinct (map fst ?acc)"
    by (rule aggregate_distinct) simp
  have d_rows: "distinct (map userId ?rows)"
    by (simp add: distinct_array_sort keys d_acc)
  have "((\<lambda>row. (userId row, totalDurationSeconds row)) \<circ>
          (\<lambda>(u, s). \<lparr>userId = u, totalDurationSeconds = s\<rparr>)) = id"
    by (auto simp add: fun_eq_iff)
  then have pairs_unsorted: "row_pairs ?unsorted = ?acc"
    by (simp add: row_pairs_def)
  have "set (row_pairs ?rows) = set (row_pairs ?unsorted)"
    unfolding row_pairs_def set_map set_array_sort by (rule refl)
  moreover have "distinct (map fst (row_pairs ?rows))"
    using d_rows by (simp add: row_pairs_def comp_def)
  moreover have "distinct (map fst (row_pairs ?unsorted))"
    using d_acc by (simp add: pairs_unsorted)
  ultimately have "map_of (row_pairs ?rows) = map_of (row_pairs ?unsorted)"
    by (simp add: map_of_inject_set)
  then have look: "map_of (row_pairs ?rows) u =
                (if filter (contributes from to u) (timeEntries w) = [] then None
                 else Some (expected_total w from to u))"
    by (simp add: pairs_unsorted aggregate_lookup filter_positive_completed or_zero_def
        expected_total_def)
  have srt: "consistent_comparator lc \<longrightarrow> sorted_wrt (\<lambda>a b. lc (userId a) (userId b) \<le> 0) ?rows"
    using sorted_array_sort [of ?cmp ?unsorted] consistent_on_rows [of lc] by blast
  from res d_rows look srt
  show "\<exists>rows. getTimeTotalsByUser lc isoDate w from to =
                 Inr \<lparr>r_from = isoDate from, r_to = isoDate to, totals = rows\<rparr> \<and>
              distinct (map userId rows) \<and>
              map_of (row_pairs rows) u =
                (if filter (contributes from to u) (timeEntries w) = [] then None
                 else Some (expected_total w from to u)) \<and>
              (consistent_comparator lc \<longrightarrow>
                 sorted_wrt (\<lambda>a b. lc (userId a) (userId b) \<le> 0) rows)"
    by blast
qed


lemma ex_compare_total: "ex_compare a b > 0 \<Longrightarrow> ex_compare b a \<le> 0"
  by (induction a b rule: ex_compare.induct) (auto split: if_splits)

lemma ex_compare_trans:
  "ex_compare a b \<le> 0 \<Longrightarrow> ex_compare b c \<le> 0 \<Longrightarrow> ex_compare a c \<le> 0"
proof (induction a arbitrary: b c)
  case Nil
  then show ?case by (cases c) simp_all
next
  case (Cons x xs)
  from Cons.prems obtain y ys where b: "b = y # ys"
    by (cases b) auto
  from Cons.prems b obtain z zs where c: "c = z # zs"
    by (cases c) auto
  from Cons.prems Cons.IH [of ys zs] show ?case
    unfolding b c by (auto split: if_splits)
qed

lemma ex_compare_consistent: "consistent_comparator ex_compare"
  unfolding consistent_comparator_def using ex_compare_total ex_compare_trans by blast

theorem getTimeTotalsByUser_report_witness:
  "(200::int) > 100 \<and>
   getTimeTotalsByUser ex_compare ex_isoDate ex_report 200 100 =
     Inl (Error ''Invalid date range: \"from\" date must be before or equal to \"to\" date'') \<and>
   (100::int) \<le> 200 \<and> consistent_comparator ex_compare \<and>
   getTimeTotalsByUser ex_compare ex_isoDate ex_report 100 200 =
     Inr \<lparr>r_from = ''1970-01-01'', r_to = ''1970-01-01'',
          totals = [\<lparr>userId = ''u1'', totalDurationSeconds = 70\<rparr>,
                    \<lparr>userId = ''u2'', totalDurationSeconds = 80\<rparr>]\<rparr> \<and>
   expected_total ex_report 100 200 ''u1'' = 70 \<and>
   expected_total ex_report 100 200 ''u2'' = 80 \<and>
   filter (contributes 100 200 ''u3'') (timeEntries ex_report) = []"
  using getTimeTotalsByUser_report [where lc = ex_compare and isoDate = ex_isoDate
      and w = ex_report and ?from = 200 and to = 100]
    getTimeTotalsByUser_report [where lc = ex_compare and isoDate = ex_isoDate
      and w = ex_report and ?from = 100 and to = 200 and u = "''u1''"]
    ex_compare_consistent
  by (simp add: ex_report_def ex_report_entries_def getTimeTotalsByUser_def
      listCompletedInRange_def or_zero_def array_sort_def ex_isoDate_def
      expected_total_def contributes_def duration_of_def Let_def)

section \<open>Comments\<close>

text \<open>
  Claim C8 says that the service function \<open>createComment\<close> rejects a text that is empty
  after trimming or longer than 2000 characters. The service has no check on the text: for
  an administrator on an existing task, and for the assignee, it returns the comment with
  the text as it is given, for every text, appends that comment to the stored comments
  and appends one \<open>COMMENT_ADDED\<close> activity to the log; tasks and time entries are as
  before. The two checks are in the controller, which answers 400 and does not call the
  service (the store it returns is the one it was given), for every role.
\<close>

theorem createComment_text_checked_at_boundary_only:
  "(task_findById w t = Some tk \<and> (r = ADMIN \<or> assigneeUserId tk = Some u) \<longrightarrow>
      fst (createComment w now t u r content) =
        Inr \<lparr>c_id = shd (uuids w), c_taskId = t, c_userId = u, c_text = content,
              c_createdAt = now, c_updatedAt = now\<rparr> \<and>
      comments (snd (createComment w now t u r content)) =
        comments w @
          [\<lparr>c_id = shd (uuids w), c_taskId = t, c_userId = u, c_text = content,
            c_createdAt = now, c_updatedAt = now\<rparr>] \<and>
      activities (snd (createComment w now t u r content)) =
        activities w @
          [\<lparr>act_id = shd (stl (uuids w)), act_taskId = t, act_type = COMMENT_ADDED,
            act_message = ''Added a comment'', actorUserId = u, act_createdAt = now,
            act_updatedAt = now\<rparr>] \<and>
      tasks (snd (createComment w now t u r content)) = tasks w \<and>
      timeEntries (snd (createComment w now t u r content)) = timeEntries w) \<and>
   (trim content = [] \<longrightarrow>
      commentController_create w now (Some (u, r)) t (Some content) =
        (Response 400 (ErrorBody ''Comment text is required''), w)) \<and>
   (trim content \<noteq> [] \<and> length content > 2000 \<longrightarrow>
      commentController_create w now (Some (u, r)) t (Some content) =
        (Response 400 (ErrorBody ''Comment text must be 2000 characters or less''), w))"
  by (auto simp add: createComment_def commentController_create_def randomUUID_def
      createActivity_def Let_def trim_def)

theorem createComment_text_checked_at_boundary_only_witness:
  "task_findById ex_idle ''t1'' = Some ex_task1 \<and>
   fst (createComment ex_idle 1000 ''t1'' ''boss'' ADMIN (replicate 2001 CHR ''a'')) =
     Inr \<lparr>c_id = ''id'', c_taskId = ''t1'', c_userId = ''boss'',
           c_text = replicate 2001 CHR ''a'', c_createdAt = 1000, c_updatedAt = 1000\<rparr> \<and>
   comments (snd (createComment ex_idle 1000 ''t1'' ''boss'' ADMIN (replicate 2001 CHR ''a''))) =
     [\<lparr>c_id = ''id'', c_taskId = ''t1'', c_userId = ''boss'',
       c_text = replicate 2001 CHR ''a'', c_createdAt = 1000, c_updatedAt = 1000\<rparr>] \<and>
   activities (snd (createComment ex_idle 1000 ''t1'' ''boss'' ADMIN (replicate 2001 CHR ''a''))) =
     [\<lparr>act_id = ''id'', act_taskId = ''t1'', act_type = COMMENT_ADDED,
       act_message = ''Added a comment'', actorUserId = ''boss'', act_createdAt = 1000,
       act_updatedAt = 1000\<rparr>] \<and>
   trim '' '' = [] \<and>
   commentController_create ex_idle 1000 (Some (''u1'', MEMBER)) ''t1'' (Some '' '') =
     (Response 400 (ErrorBody ''Comment text is required''), ex_idle) \<and>
   trim (replicate 2001 CHR ''a'') \<noteq> [] \<and> length (replicate 2001 CHR ''a'') > 2000 \<and>
   commentController_create ex_idle 1000 (Some (''boss'', ADMIN)) ''t1''
       (Some (replicate 2001 CHR ''a'')) =
     (Response 400 (ErrorBody ''Comment text must be 2000 characters or less''), ex_idle)"
proof -
  have ws: "isWhiteSpace CHR '' ''"
    by (simp add: isWhiteSpace_def)
  have nws: "\<not> isWhiteSpace CHR ''a''"
    by (simp add: isWhiteSpace_def)
  have tr1: "trim '' '' = []"
    by (simp add: trim_def ws)
  have "replicate 2001 CHR ''a'' = CHR ''a'' # replicate 2000 CHR ''a''"
    by (simp add: replicate_Suc [symmetric] del: replicate_Suc)
  then have tr2: "trim (replicate 2001 CHR ''a'') \<noteq> []"
    by (simp add: trim_def nws del: replicate_Suc)
  have tk: "task_findById ex_idle ''t1'' = Some ex_task1"
    by (simp add: ex_defs task_findById_def mapDocumentToTask_def)
  have uu: "shd (uuids ex_idle) = ''id''" "shd (stl (uuids ex_idle)) = ''id''"
      "comments ex_idle = []" "activities ex_idle = []"
    by (simp_all add: ex_defs)
  show ?thesis
    using createComment_text_checked_at_boundary_only [where w = ex_idle and t = "''t1''"
        and tk = ex_task1 and r = ADMIN and u = "''boss''" and now = 1000
        and content = "replicate 2001 CHR ''a''"]
      createComment_text_checked_at_boundary_only [where w = ex_idle and t = "''t1''"
        and r = MEMBER and u = "''u1''" and now = 1000 and content = "'' ''"]
      createComment_text_checked_at_boundary_only [where w = ex_idle and t = "''t1''"
        and r = ADMIN and u = "''boss''" and now = 1000
        and content = "replicate 2001 CHR ''a''"]
      tr1 tr2 tk uu
    by (simp del: replicate_Suc)
qed

text \<open>
  An administrator's empty comment on the existing task \<open>t1\<close> is accepted by the service:
  the result is the stored comment, not an error.
\<close>

theorem createComment_accepts_empty_text:
  "trim [] = [] \<and>
   fst (createComment ex_idle 1000 ''t1'' ''boss'' ADMIN []) =
     Inr \<lparr>c_id = ''id'', c_taskId = ''t1'', c_userId = ''boss'', c_text = [],
           c_createdAt = 1000, c_updatedAt = 1000\<rparr> \<and>
   comments (snd (createComment ex_idle 1000 ''t1'' ''boss'' ADMIN [])) =
     [\<lparr>c_id = ''id'', c_taskId = ''t1'', c_userId = ''boss'', c_text = [],
       c_createdAt = 1000, c_updatedAt = 1000\<rparr>]"
  by (simp add: ex_defs createComment_def task_findById_def mapDocumentToTask_def
      randomUUID_def createActivity_def Let_def trim_def)

end
